(* ===== verification/Prelude.thy ===== *)
theory Prelude
  imports Complex_Main "HOL-Library.AList"
begin

text \<open>
  Shared vocabulary of the development. Python strings are sequences of Unicode code
  points, so a Python \<open>str\<close> is modelled as a list of natural numbers (\<open>pystr\<close>);
  ASCII literals are written \<open>U ''...''\<close> and other code points by number. Python
  exceptions are values of the datatype \<open>exn\<close>, and a computation that may raise is a
  value of \<open>exn + 'a\<close>, sequenced by \<open>pbind\<close> (the first exception aborts the rest,
  as an uncaught raise does). The collection \<open>py_simps\<close> gathers the evaluation
  equations of the Python runtime model, so that component proofs can say
  \<open>simp add: py_simps\<close>.
\<close>

named_theorems py_simps "evaluation equations of the Python runtime model"

type_synonym pystr = "nat list"

abbreviation U :: "string \<Rightarrow> pystr" where
  "U s \<equiv> map of_char s"

abbreviation NL :: pystr where
  "NL \<equiv> [10]"

datatype exn =
    KeyError
  | IndexError
  | TypeError
  | AttributeError
  | HTTPError
  | ConnectionError
  | JSONDecodeError

type_synonym 'a result = "exn + 'a"

definition pbind :: "'a result \<Rightarrow> ('a \<Rightarrow> 'b result) \<Rightarrow> 'b result" where
  "pbind m f = (case m of Inl e \<Rightarrow> Inl e | Inr x \<Rightarrow> f x)"

lemma pbind_Inl [simp]: "pbind (Inl e) f = Inl e"
  by (simp add: pbind_def)

lemma pbind_Inr [simp]: "pbind (Inr x) f = f x"
  by (simp add: pbind_def)

lemma pbind_eq_Inr_iff: "pbind m f = Inr y \<longleftrightarrow> (\<exists>x. m = Inr x \<and> f x = Inr y)"
  by (cases m) auto

lemma pbind_eq_Inl_iff:
  "pbind m f = Inl e \<longleftrightarrow> m = Inl e \<or> (\<exists>x. m = Inr x \<and> f x = Inl e)"
  by (cases m) auto

text \<open>ASCII literals are compared character by character.\<close>

lemma map_of_char_eq [simp]: "(U xs = U ys) \<longleftrightarrow> xs = ys"
  by (simp add: inj_map_eq_map inj_on_def)

end
