(* ===== verification/Python.thy ===== *)
theory Python
  imports Prelude
begin

text \<open>
  The part of the Python runtime that \<open>src/weather_bot.py\<close> relies on: the dynamic
  values that \<open>requests\<close>' \<open>.json()\<close> returns (None, bools, ints, floats, strings,
  lists and dicts) and the built-in operations the program applies to them
  (subscripting, \<open>dict.get\<close>, item assignment, \<open>len\<close>, slicing, iteration,
  truthiness, \<open><\<close> against a numeral, \<open>str()\<close> in f-strings, \<open>str.capitalize\<close>).
  Every operation returns the exception Python raises where it raises. A dict is an
  association list in insertion order, as CPython's dicts are; a float is its exact real
  value. \<open>str()\<close> of a float, a list or a dict is CPython's \<open>repr\<close>, which the
  program never defines: it is a parameter \<open>r :: py_repr\<close> of every rendering
  function, and every theorem holds for all of them.
\<close>

datatype pyval =
    PNone
  | PBool bool
  | PInt int
  | PFloat real
  | PStr pystr
  | PList "pyval list"
  | PDict "(pystr \<times> pyval) list"

type_synonym py_repr = "pyval \<Rightarrow> pystr"

subsection \<open>Truthiness and numbers\<close>

fun py_truthy :: "pyval \<Rightarrow> bool" where
  "py_truthy PNone = False"
| "py_truthy (PBool b) = b"
| "py_truthy (PInt i) = (i \<noteq> 0)"
| "py_truthy (PFloat x) = (x \<noteq> 0)"
| "py_truthy (PStr s) = (s \<noteq> [])"
| "py_truthy (PList xs) = (xs \<noteq> [])"
| "py_truthy (PDict d) = (d \<noteq> [])"

text \<open>The numeric value of a number (\<open>bool\<close> is a subclass of \<open>int\<close> in Python).\<close>

fun py_num :: "pyval \<Rightarrow> real option" where
  "py_num (PBool b) = Some (if b then 1 else 0)"
| "py_num (PInt i) = Some (of_int i)"
| "py_num (PFloat x) = Some x"
| "py_num _ = None"

text \<open>\<open>v < c\<close> for an integer literal \<open>c\<close>: a TypeError unless \<open>v\<close> is a number.\<close>

definition py_less :: "pyval \<Rightarrow> int \<Rightarrow> bool result" where
  "py_less v c = (case py_num v of None \<Rightarrow> Inl TypeError | Some x \<Rightarrow> Inr (x < of_int c))"

subsection \<open>Containers\<close>

text \<open>\<open>v[k]\<close> for a string key \<open>k\<close>.\<close>

fun py_subscript_key :: "pyval \<Rightarrow> pystr \<Rightarrow> pyval result" where
  "py_subscript_key (PDict d) k = (case map_of d k of None \<Rightarrow> Inl KeyError | Some x \<Rightarrow> Inr x)"
| "py_subscript_key _ k = Inl TypeError"

text \<open>\<open>v[0]\<close>. A JSON dict has string keys only, so \<open>0\<close> is never one of them.\<close>

fun py_subscript_0 :: "pyval \<Rightarrow> pyval result" where
  "py_subscript_0 (PList xs) = (case xs of [] \<Rightarrow> Inl IndexError | x # _ \<Rightarrow> Inr x)"
| "py_subscript_0 (PStr s) = (case s of [] \<Rightarrow> Inl IndexError | c # _ \<Rightarrow> Inr (PStr [c]))"
| "py_subscript_0 (PDict d) = Inl KeyError"
| "py_subscript_0 _ = Inl TypeError"

text \<open>A chain of string subscripts \<open>v[k1][k2]...\<close>, evaluated left to right.\<close>

fun py_path :: "pyval \<Rightarrow> pystr list \<Rightarrow> pyval result" where
  "py_path v [] = Inr v"
| "py_path v (k # ks) = pbind (py_subscript_key v k) (\<lambda>w. py_path w ks)"

text \<open>\<open>v.get(k, default)\<close>: only dicts have a \<open>get\<close> method.\<close>

fun py_get :: "pyval \<Rightarrow> pystr \<Rightarrow> pyval \<Rightarrow> pyval result" where
  "py_get (PDict d) k dflt = Inr (case map_of d k of None \<Rightarrow> dflt | Some x \<Rightarrow> x)"
| "py_get _ k dflt = Inl AttributeError"

text \<open>\<open>v[k] = x\<close>: an existing key keeps its position, a new key goes last.\<close>

fun py_setitem :: "pyval \<Rightarrow> pystr \<Rightarrow> pyval \<Rightarrow> pyval result" where
  "py_setitem (PDict d) k x = Inr (PDict (AList.update k x d))"
| "py_setitem _ k x = Inl TypeError"

fun py_len :: "pyval \<Rightarrow> nat result" where
  "py_len (PStr s) = Inr (length s)"
| "py_len (PList xs) = Inr (length xs)"
| "py_len (PDict d) = Inr (length d)"
| "py_len _ = Inl TypeError"

text \<open>\<open>v[:n]\<close>.\<close>

fun py_slice_upto :: "pyval \<Rightarrow> nat \<Rightarrow> pyval result" where
  "py_slice_upto (PStr s) n = Inr (PStr (take n s))"
| "py_slice_upto (PList xs) n = Inr (PList (take n xs))"
| "py_slice_upto _ n = Inl TypeError"

text \<open>The elements \<open>for x in v\<close> visits: a string yields its characters, a dict its keys.\<close>

fun py_iter :: "pyval \<Rightarrow> pyval list result" where
  "py_iter (PStr s) = Inr (map (\<lambda>c. PStr [c]) s)"
| "py_iter (PList xs) = Inr xs"
| "py_iter (PDict d) = Inr (map (\<lambda>p. PStr (fst p)) d)"
| "py_iter _ = Inl TypeError"

subsection \<open>Strings\<close>

text \<open>\<open>str(i)\<close> for an int: optional minus sign, decimal digits, no leading zeros.\<close>

fun digits_of_nat :: "nat \<Rightarrow> pystr" where
  "digits_of_nat n = (if n < 10 then [48 + n] else digits_of_nat (n div 10) @ [48 + n mod 10])"

definition show_int :: "int \<Rightarrow> pystr" where
  "show_int i = (if i < 0 then 45 # digits_of_nat (nat (- i)) else digits_of_nat (nat i))"

text \<open>\<open>str(v)\<close>, as an f-string field \<open>{v}\<close> renders it.\<close>

fun py_str :: "py_repr \<Rightarrow> pyval \<Rightarrow> pystr" where
  "py_str r PNone = U ''None''"
| "py_str r (PBool b) = (if b then U ''True'' else U ''False'')"
| "py_str r (PInt i) = show_int i"
| "py_str r (PStr s) = s"
| "py_str r (PFloat x) = r (PFloat x)"
| "py_str r (PList xs) = r (PList xs)"
| "py_str r (PDict d) = r (PDict d)"

text \<open>
  \<open>str.capitalize\<close>: the first character upper case, all others lower case. The case
  mapping is the ASCII one; the Unicode case tables of the runtime are not modelled.
\<close>

definition ascii_upper :: "nat \<Rightarrow> nat" where
  "ascii_upper c = (if 97 \<le> c \<and> c \<le> 122 then c - 32 else c)"

definition ascii_lower :: "nat \<Rightarrow> nat" where
  "ascii_lower c = (if 65 \<le> c \<and> c \<le> 90 then c + 32 else c)"

definition capitalize :: "pystr \<Rightarrow> pystr" where
  "capitalize s = (case s of [] \<Rightarrow> [] | c # cs \<Rightarrow> ascii_upper c # map ascii_lower cs)"

fun py_capitalize :: "pyval \<Rightarrow> pystr result" where
  "py_capitalize (PStr s) = Inr (capitalize s)"
| "py_capitalize _ = Inl AttributeError"

subsection \<open>Evaluation lemmas\<close>

declare digits_of_nat.simps [simp del]

lemma digits_of_nat_small [py_simps]: "n < 10 \<Longrightarrow> digits_of_nat n = [48 + n]"
  by (simp add: digits_of_nat.simps)

lemma digits_of_nat_large [py_simps]:
  "\<not> n < 10 \<Longrightarrow> digits_of_nat n = digits_of_nat (n div 10) @ [48 + n mod 10]"
  by (subst digits_of_nat.simps) simp

lemma digits_of_nat_digits: "c \<in> set (digits_of_nat n) \<Longrightarrow> 48 \<le> c \<and> c < 58"
proof (induction n rule: digits_of_nat.induct)
  case (1 n)
  show ?case
  proof (cases "n < 10")
    case True
    with "1.prems" show ?thesis by (simp add: py_simps)
  next
    case False
    with "1.prems" have "c \<in> set (digits_of_nat (n div 10)) \<or> c = 48 + n mod 10"
      by (auto simp add: py_simps)
    with False "1.IH" show ?thesis by auto
  qed
qed

lemmas py_eval [py_simps] = py_less_def show_int_def capitalize_def ascii_upper_def ascii_lower_def

end
