(* ===== verification/Weather_Source.thy ===== *)
theory Weather_Source
  imports Python
begin

text \<open>
  The weather source of \<open>src/weather_bot.py\<close> (\<open>get_weather_by_coordinates\<close>,
  \<open>get_weather_by_city\<close>). The provider is the network as the program sees it: a
  function \<open>net\<close> from the URL string handed to \<open>requests.get\<close> to the response
  (unreachable, or a status code with a body that is JSON or not). \<open>http_get_json\<close> is
  the three-line idiom \<open>requests.get\<close>; \<open>raise_for_status()\<close>; \<open>.json()\<close>. Each
  function's \<open>try\<close> body is a definition of its own returning \<open>pyval result\<close>; the
  function itself maps every exception to Python's \<open>None\<close>, as its
  \<open>except Exception\<close> clause does.
\<close>

definition WEATHER_API_KEY :: pystr where
  "WEATHER_API_KEY = U ''YOUR_OPENWEATHERMAP_API_KEY''"

datatype response = Unreachable | Response int "pyval option"

type_synonym net = "pystr \<Rightarrow> response"

definition http_get_json :: "net \<Rightarrow> pystr \<Rightarrow> pyval result" where
  "http_get_json net url =
     (case net url of
        Unreachable \<Rightarrow> Inl ConnectionError
      | Response status body \<Rightarrow>
          (if 400 \<le> status \<and> status < 600 then Inl HTTPError
           else (case body of None \<Rightarrow> Inl JSONDecodeError | Some v \<Rightarrow> Inr v)))"

subsection \<open>Request URLs\<close>

definition weather_url :: "py_repr \<Rightarrow> pyval \<Rightarrow> pyval \<Rightarrow> pystr" where
  "weather_url r latitude longitude =
     U ''https://api.openweathermap.org/data/2.5/weather?lat='' @ py_str r latitude @
     U ''&lon='' @ py_str r longitude @ U ''&appid='' @ WEATHER_API_KEY @ U ''&units=metric''"

definition pollution_url :: "py_repr \<Rightarrow> pyval \<Rightarrow> pyval \<Rightarrow> pystr" where
  "pollution_url r latitude longitude =
     U ''https://api.openweathermap.org/data/2.5/air_pollution?lat='' @ py_str r latitude @
     U ''&lon='' @ py_str r longitude @ U ''&appid='' @ WEATHER_API_KEY"

definition onecall_url :: "py_repr \<Rightarrow> pyval \<Rightarrow> pyval \<Rightarrow> pystr" where
  "onecall_url r latitude longitude =
     U ''https://api.openweathermap.org/data/3.0/onecall?lat='' @ py_str r latitude @
     U ''&lon='' @ py_str r longitude @ U ''&exclude=minutely,hourly,daily&appid='' @
     WEATHER_API_KEY @ U ''&units=metric''"

definition city_weather_url :: "pystr \<Rightarrow> pystr" where
  "city_weather_url city_name =
     U ''https://api.openweathermap.org/data/2.5/weather?q='' @ city_name @
     U ''&appid='' @ WEATHER_API_KEY @ U ''&units=metric''"

subsection \<open>Fetching by coordinates\<close>

text \<open>
  The merge of the three answers, in the order of the assignments: the right-hand side
  of each is evaluated before the item assignment into \<open>combined_data\<close>.
\<close>

definition combine_weather :: "pyval \<Rightarrow> pyval \<Rightarrow> pyval \<Rightarrow> pyval result" where
  "combine_weather weather_data pollution_data onecall_data =
     pbind (pbind (py_get pollution_data (U ''list'') PNone) (\<lambda>l.
              if py_truthy l
              then pbind (py_subscript_key pollution_data (U ''list'')) py_subscript_0
              else Inr PNone)) (\<lambda>air.
     pbind (py_setitem weather_data (U ''air_pollution'') air) (\<lambda>c1.
     pbind (pbind (py_get onecall_data (U ''current'') (PDict [])) (\<lambda>cur.
              py_get cur (U ''uvi'') PNone)) (\<lambda>uvi.
     pbind (py_setitem c1 (U ''uvi'') uvi) (\<lambda>c2.
     pbind (py_get onecall_data (U ''alerts'') (PList [])) (\<lambda>alerts.
     py_setitem c2 (U ''alerts'') alerts)))))"

text \<open>The \<open>try\<close> body of \<open>get_weather_by_coordinates\<close>: three calls, in order.\<close>

definition fetch_by_coordinates :: "py_repr \<Rightarrow> net \<Rightarrow> pyval \<Rightarrow> pyval \<Rightarrow> pyval result" where
  "fetch_by_coordinates r net latitude longitude =
     pbind (http_get_json net (weather_url r latitude longitude)) (\<lambda>weather_data.
     pbind (http_get_json net (pollution_url r latitude longitude)) (\<lambda>pollution_data.
     pbind (http_get_json net (onecall_url r latitude longitude)) (\<lambda>onecall_data.
     combine_weather weather_data pollution_data onecall_data)))"

definition get_weather_by_coordinates :: "py_repr \<Rightarrow> net \<Rightarrow> pyval \<Rightarrow> pyval \<Rightarrow> pyval" where
  "get_weather_by_coordinates r net latitude longitude =
     (case fetch_by_coordinates r net latitude longitude of Inl e \<Rightarrow> PNone | Inr v \<Rightarrow> v)"

subsection \<open>Fetching by city name\<close>

definition fetch_by_city :: "py_repr \<Rightarrow> net \<Rightarrow> pystr \<Rightarrow> pyval result" where
  "fetch_by_city r net city_name =
     pbind (http_get_json net (city_weather_url city_name)) (\<lambda>weather_data.
     pbind (py_path weather_data [U ''coord'', U ''lat'']) (\<lambda>latitude.
     pbind (py_path weather_data [U ''coord'', U ''lon'']) (\<lambda>longitude.
     Inr (get_weather_by_coordinates r net latitude longitude))))"

definition get_weather_by_city :: "py_repr \<Rightarrow> net \<Rightarrow> pystr \<Rightarrow> pyval" where
  "get_weather_by_city r net city_name =
     (case fetch_by_city r net city_name of Inl e \<Rightarrow> PNone | Inr v \<Rightarrow> v)"

subsection \<open>How the provider reads a request URL\<close>



subsection \<open>Lemmas\<close>


lemma py_setitem_Inr:
  "py_setitem v k x = Inr w \<Longrightarrow> \<exists>d. v = PDict d \<and> w = PDict (AList.update k x d)"
  by (cases v) auto

lemma combine_weather_Inr:
  assumes "combine_weather w p oc = Inr c"
  shows "\<exists>d. w = PDict d \<and> (\<exists>air uvi alerts.
           c = PDict (AList.update (U ''alerts'') alerts
                        (AList.update (U ''uvi'') uvi
                          (AList.update (U ''air_pollution'') air d))))"
  using assms
  by (auto simp: combine_weather_def pbind_eq_Inr_iff dest!: py_setitem_Inr)

lemma fetch_by_coordinates_Inr:
  assumes "fetch_by_coordinates r net lat lon = Inr c"
  shows "\<exists>w p oc. http_get_json net (weather_url r lat lon) = Inr w \<and>
           http_get_json net (pollution_url r lat lon) = Inr p \<and>
           http_get_json net (onecall_url r lat lon) = Inr oc \<and>
           combine_weather w p oc = Inr c"
  using assms by (auto simp: fetch_by_coordinates_def pbind_eq_Inr_iff)

lemma get_weather_by_coordinates_not_None:
  "get_weather_by_coordinates r net lat lon \<noteq> PNone \<Longrightarrow>
   fetch_by_coordinates r net lat lon = Inr (get_weather_by_coordinates r net lat lon)"
  by (simp add: get_weather_by_coordinates_def split: sum.splits)

lemma get_weather_by_city_not_None:
  "get_weather_by_city r net city \<noteq> PNone \<Longrightarrow>
   fetch_by_city r net city = Inr (get_weather_by_city r net city)"
  by (simp add: get_weather_by_city_def split: sum.splits)

lemma coordinates_call_failed:
  assumes "(\<exists>e. http_get_json net (weather_url r lat lon) = Inl e) \<or>
           (\<exists>e. http_get_json net (pollution_url r lat lon) = Inl e) \<or>
           (\<exists>e. http_get_json net (onecall_url r lat lon) = Inl e)"
  shows "get_weather_by_coordinates r net lat lon = PNone"
  using assms
  by (auto simp: get_weather_by_coordinates_def fetch_by_coordinates_def pbind_def
      split: sum.split)

subsection \<open>Properties of the weather source\<close>

text \<open>
  Claim C4. A report by coordinates exists only if all three provider calls (current
  weather, air pollution, One Call) succeeded: the air-pollution and One Call requests
  are not optional in the code, since one \<open>try\<close> block covers all three.
\<close>

theorem coordinates_need_all_three_calls:
  assumes "get_weather_by_coordinates r net lat lon \<noteq> PNone"
  shows "\<exists>w p oc. http_get_json net (weather_url r lat lon) = Inr w \<and>
           http_get_json net (pollution_url r lat lon) = Inr p \<and>
           http_get_json net (onecall_url r lat lon) = Inr oc"
  using fetch_by_coordinates_Inr [OF get_weather_by_coordinates_not_None [OF assms]] by blast

theorem coordinates_need_all_three_calls_witness:
  "get_weather_by_coordinates (\<lambda>_. []) (\<lambda>_. Response 200 (Some (PDict []))) (PInt 0) (PInt 0)
     \<noteq> PNone \<and>
   (\<exists>w p oc. http_get_json (\<lambda>_. Response 200 (Some (PDict []))) (weather_url (\<lambda>_. []) (PInt 0) (PInt 0)) = Inr w \<and>
      http_get_json (\<lambda>_. Response 200 (Some (PDict []))) (pollution_url (\<lambda>_. []) (PInt 0) (PInt 0)) = Inr p \<and>
      http_get_json (\<lambda>_. Response 200 (Some (PDict []))) (onecall_url (\<lambda>_. []) (PInt 0) (PInt 0)) = Inr oc)"
proof -
  have h: "get_weather_by_coordinates (\<lambda>_. []) (\<lambda>_. Response 200 (Some (PDict []))) (PInt 0) (PInt 0)
     \<noteq> PNone"
    by (simp add: get_weather_by_coordinates_def fetch_by_coordinates_def http_get_json_def
        combine_weather_def)
  show ?thesis using h coordinates_need_all_three_calls [OF h] by blast
qed

text \<open>
  Claim C16. When the three calls answer with JSON objects and the pollution answer has
  a \<open>list\<close>, the report is the current-weather object with three keys set in order:
  \<open>air_pollution\<close> the first pollution entry (None for an empty list), \<open>uvi\<close> the
  One Call \<open>current.uvi\<close> (None when absent), \<open>alerts\<close> the One Call alerts (the
  empty list when absent).
\<close>

theorem coordinates_merge:
  assumes "http_get_json net (weather_url r lat lon) = Inr (PDict w)"
    and "http_get_json net (pollution_url r lat lon) = Inr (PDict p)"
    and "map_of p (U ''list'') = Some (PList entries)"
    and "http_get_json net (onecall_url r lat lon) = Inr (PDict oc)"
    and "py_get (PDict oc) (U ''current'') (PDict []) = Inr (PDict cur)"
  shows "get_weather_by_coordinates r net lat lon =
           PDict (AList.update (U ''alerts'')
                    (case map_of oc (U ''alerts'') of None \<Rightarrow> PList [] | Some a \<Rightarrow> a)
                  (AList.update (U ''uvi'') (case map_of cur (U ''uvi'') of None \<Rightarrow> PNone | Some u \<Rightarrow> u)
                  (AList.update (U ''air_pollution'') (case entries of [] \<Rightarrow> PNone | e # _ \<Rightarrow> e) w)))"
  using assms
  by (simp add: get_weather_by_coordinates_def fetch_by_coordinates_def combine_weather_def
      split: list.split option.split)

theorem coordinates_merge_witness:
  "get_weather_by_coordinates (\<lambda>_. []) (\<lambda>_. Response 200 (Some (PDict [(U ''list'', PList [])])))
     (PInt 0) (PInt 0) =
   PDict [(U ''list'', PList []), (U ''air_pollution'', PNone), (U ''uvi'', PNone),
          (U ''alerts'', PList [])]"
  using coordinates_merge [of "\<lambda>_. Response 200 (Some (PDict [(U ''list'', PList [])]))"
      "\<lambda>_. []" "PInt 0" "PInt 0" "[(U ''list'', PList [])]" "[(U ''list'', PList [])]" "[]"
      "[(U ''list'', PList [])]" "[]"]
  by (simp add: http_get_json_def)

text \<open>
  Claim C24. \<open>get_weather_by_coordinates\<close> returns either None or a dict holding the
  keys \<open>air_pollution\<close>, \<open>uvi\<close> and \<open>alerts\<close>; so the handlers' truthiness test
  \<open>if weather_data:\<close> is exactly the test for a successful fetch.
\<close>

theorem coordinates_result_shape:
  "get_weather_by_coordinates r net lat lon = PNone \<or>
   (\<exists>d. get_weather_by_coordinates r net lat lon = PDict d \<and>
        U ''air_pollution'' \<in> dom (map_of d) \<and> U ''uvi'' \<in> dom (map_of d) \<and>
        U ''alerts'' \<in> dom (map_of d))"
proof (cases "get_weather_by_coordinates r net lat lon = PNone")
  case False
  then obtain w p oc where "combine_weather w p oc = Inr (get_weather_by_coordinates r net lat lon)"
    using fetch_by_coordinates_Inr [OF get_weather_by_coordinates_not_None] by blast
  then show ?thesis
    by (auto dest!: combine_weather_Inr simp: update_conv')
qed simp



text \<open>
  Claim C17. A report by city name is the report by the coordinates that the
  current-weather lookup by name returned: if that lookup fails or has no
  \<open>coord.lat\<close>/\<open>coord.lon\<close>, the result is None and no report keyed by the name alone
  is built.
\<close>

theorem city_is_geocode_then_coordinates:
  assumes "get_weather_by_city r net city \<noteq> PNone"
  shows "\<exists>w lat lon. http_get_json net (city_weather_url city) = Inr w \<and>
           py_path w [U ''coord'', U ''lat''] = Inr lat \<and>
           py_path w [U ''coord'', U ''lon''] = Inr lon \<and>
           get_weather_by_city r net city = get_weather_by_coordinates r net lat lon"
  using get_weather_by_city_not_None [OF assms]
  by (auto simp: fetch_by_city_def pbind_eq_Inr_iff)

theorem city_is_geocode_then_coordinates_witness:
  "get_weather_by_city (\<lambda>_. []) (\<lambda>_. Response 200
       (Some (PDict [(U ''coord'', PDict [(U ''lat'', PInt 0), (U ''lon'', PInt 0)])]))) (U ''Oslo'')
     \<noteq> PNone \<and>
   (\<exists>w lat lon. http_get_json (\<lambda>_. Response 200
       (Some (PDict [(U ''coord'', PDict [(U ''lat'', PInt 0), (U ''lon'', PInt 0)])])))
       (city_weather_url (U ''Oslo'')) = Inr w \<and>
     py_path w [U ''coord'', U ''lat''] = Inr lat \<and>
     py_path w [U ''coord'', U ''lon''] = Inr lon \<and>
     get_weather_by_city (\<lambda>_. []) (\<lambda>_. Response 200
       (Some (PDict [(U ''coord'', PDict [(U ''lat'', PInt 0), (U ''lon'', PInt 0)])]))) (U ''Oslo'') =
     get_weather_by_coordinates (\<lambda>_. []) (\<lambda>_. Response 200
       (Some (PDict [(U ''coord'', PDict [(U ''lat'', PInt 0), (U ''lon'', PInt 0)])]))) lat lon)"
proof -
  have h: "get_weather_by_city (\<lambda>_. []) (\<lambda>_. Response 200
       (Some (PDict [(U ''coord'', PDict [(U ''lat'', PInt 0), (U ''lon'', PInt 0)])]))) (U ''Oslo'')
     \<noteq> PNone"
    by (simp add: get_weather_by_city_def fetch_by_city_def get_weather_by_coordinates_def
        fetch_by_coordinates_def http_get_json_def combine_weather_def)
  show ?thesis using h city_is_geocode_then_coordinates [OF h] by blast
qed




end
