(* ===== verification/Report_Formatter.thy ===== *)
theory Report_Formatter
  imports Python
begin

text \<open>
  The report formatter of \<open>src/weather_bot.py\<close>: \<open>format_weather_data\<close> and its two
  classifiers \<open>get_uv_risk_level\<close> and \<open>get_air_quality_description\<close>. The input is
  the merged dict that the weather source returns, as a \<open>pyval\<close>; every subscript
  that can raise is a \<open>pbind\<close> step, so a malformed report yields the exception that
  Python raises (the function has no \<open>try\<close>). The text is built section by section:
  the mandatory block (lines 155--162), then the UV, air-quality and alerts sections,
  each the empty string when absent; the concatenation equals the sequence of
  \<open>+=\<close> updates because an exception in a later section discards the whole text.
  Code points outside ASCII (the emoji, degree sign, micro sign, superscript three
  and subscript two of the source) are written by number.
\<close>

subsection \<open>Classifiers\<close>

definition uv_risk_texts :: "pystr list" where
  "uv_risk_texts =
     [U ''Low Risk (No protection required)'',
      U ''Moderate Risk (Protection recommended)'',
      U ''High Risk (Protection essential)'',
      U ''Very High Risk (Extra protection needed)'',
      U ''Extreme Risk (Maximum protection required)'']"

definition get_uv_risk_level :: "pyval \<Rightarrow> pystr result" where
  "get_uv_risk_level uvi =
     pbind (py_less uvi 3) (\<lambda>b1. if b1 then Inr (U ''Low Risk (No protection required)'') else
     pbind (py_less uvi 6) (\<lambda>b2. if b2 then Inr (U ''Moderate Risk (Protection recommended)'') else
     pbind (py_less uvi 8) (\<lambda>b3. if b3 then Inr (U ''High Risk (Protection essential)'') else
     pbind (py_less uvi 11) (\<lambda>b4. if b4 then Inr (U ''Very High Risk (Extra protection needed)'')
     else Inr (U ''Extreme Risk (Maximum protection required)'')))))"

definition air_quality_descriptions :: "(int \<times> pystr) list" where
  "air_quality_descriptions =
     [(1, U ''Excellent (Very Good)''),
      (2, U ''Fair (Good)''),
      (3, U ''Moderate (Acceptable)''),
      (4, U ''Poor (Unhealthy)''),
      (5, U ''Very Poor (Hazardous)'')]"

text \<open>
  \<open>descriptions.get(aqi, "Unknown")\<close>: a dict lookup compares keys by numeric
  equality (so \<open>1.0\<close> and \<open>True\<close> find the entry of \<open>1\<close>), and a list or dict
  argument is unhashable, a TypeError.
\<close>

definition get_air_quality_description :: "pyval \<Rightarrow> pystr result" where
  "get_air_quality_description aqi =
     (case aqi of
        PList _ \<Rightarrow> Inl TypeError
      | PDict _ \<Rightarrow> Inl TypeError
      | _ \<Rightarrow> Inr (case find (\<lambda>kd. py_num aqi = Some (of_int (fst kd))) air_quality_descriptions of
                  None \<Rightarrow> U ''Unknown''
                | Some kd \<Rightarrow> snd kd))"

subsection \<open>Sections\<close>

definition basic_block ::
  "py_repr \<Rightarrow> pyval \<Rightarrow> pyval \<Rightarrow> pystr \<Rightarrow> pyval \<Rightarrow> pyval \<Rightarrow> pyval \<Rightarrow> pyval \<Rightarrow> pystr" where
  "basic_block r city_name country weather_description temperature feels_like humidity
     wind_speed =
     [0x1F4CD] @ U '' Location: '' @ py_str r city_name @ U '', '' @ py_str r country @ NL @
     [0x1F324] @ U '' Weather: '' @ weather_description @ NL @
     [0x1F321] @ U '' Temperature: '' @ py_str r temperature @ [0xB0] @ U ''C'' @ NL @
     [0x1F914] @ U '' Feels like: '' @ py_str r feels_like @ [0xB0] @ U ''C'' @ NL @
     [0x1F4A7] @ U '' Humidity: '' @ py_str r humidity @ U ''%'' @ NL @
     [0x1F4A8] @ U '' Wind speed: '' @ py_str r wind_speed @ U '' m/s''"

definition uv_section :: "py_repr \<Rightarrow> pyval \<Rightarrow> pystr result" where
  "uv_section r weather_data =
     pbind (py_get weather_data (U ''uvi'') PNone) (\<lambda>u.
       if u \<noteq> PNone then
         pbind (py_subscript_key weather_data (U ''uvi'')) (\<lambda>uvi.
         pbind (get_uv_risk_level uvi) (\<lambda>uv_risk.
         Inr (NL @ NL @ [0x2600, 0xFE0F] @ U '' UV Index: '' @ py_str r uvi @ U '' - '' @ uv_risk)))
       else Inr [])"

definition pollutant_line :: "py_repr \<Rightarrow> pystr \<Rightarrow> pyval \<Rightarrow> pystr" where
  "pollutant_line r label value =
     NL @ U ''   - '' @ label @ U '': '' @ py_str r value @ U '' '' @ [0x3BC] @ U ''g/m'' @ [0xB3]"

definition air_section :: "py_repr \<Rightarrow> pyval \<Rightarrow> pystr result" where
  "air_section r weather_data =
     pbind (py_get weather_data (U ''air_pollution'') PNone) (\<lambda>ap.
       if py_truthy ap then
         pbind (py_path weather_data [U ''air_pollution'', U ''main'', U ''aqi'']) (\<lambda>aqi.
         pbind (get_air_quality_description aqi) (\<lambda>air_quality.
         pbind (py_path weather_data [U ''air_pollution'', U ''components'']) (\<lambda>components.
         pbind (py_get components (U ''pm2_5'') (PStr (U ''N/A''))) (\<lambda>pm2_5.
         pbind (py_get components (U ''pm10'') (PStr (U ''N/A''))) (\<lambda>pm10.
         pbind (py_get components (U ''no2'') (PStr (U ''N/A''))) (\<lambda>no2.
         Inr (NL @ NL @ [0x1F32C] @ U '' Air Quality: '' @ air_quality @
              pollutant_line r (U ''PM2.5'') pm2_5 @
              pollutant_line r (U ''PM10'') pm10 @
              pollutant_line r (U ''NO'' @ [0x2082]) no2)))))))
       else Inr [])"

text \<open>Lines 191--193: \<open>len(description) > 100\<close>, then \<open>description[:97] + "..."\<close>.\<close>

definition truncate_description :: "pyval \<Rightarrow> pyval result" where
  "truncate_description description =
     pbind (py_len description) (\<lambda>n.
       if 100 < n then
         (case description of
            PStr s \<Rightarrow> Inr (PStr (take 97 s @ U ''...''))
          | _ \<Rightarrow> Inl TypeError)
       else Inr description)"

text \<open>The loop of lines 188--194, over the elements of \<open>alerts[:3]\<close>, \<open>i\<close> counting from 0.\<close>

fun format_alerts :: "py_repr \<Rightarrow> nat \<Rightarrow> pyval list \<Rightarrow> pystr result" where
  "format_alerts r i [] = Inr []"
| "format_alerts r i (alert # rest) =
     pbind (py_get alert (U ''event'') (PStr (U ''Unknown Alert''))) (\<lambda>event.
     pbind (py_get alert (U ''description'') (PStr (U ''No details available''))) (\<lambda>description.
     pbind (truncate_description description) (\<lambda>description.
     pbind (format_alerts r (Suc i) rest) (\<lambda>tail.
     Inr (NL @ show_int (int i + 1) @ U ''. '' @ py_str r event @ U '': '' @
          py_str r description @ tail)))))"

definition alerts_section :: "py_repr \<Rightarrow> pyval \<Rightarrow> pystr result" where
  "alerts_section r weather_data =
     pbind (py_get weather_data (U ''alerts'') PNone) (\<lambda>a.
       if \<not> py_truthy a then Inr [] else
       pbind (py_subscript_key weather_data (U ''alerts'')) (\<lambda>alerts.
       pbind (py_len alerts) (\<lambda>n.
         if 0 < n then
           pbind (py_slice_upto alerts 3) (\<lambda>first3.
           pbind (py_iter first3) (\<lambda>xs.
           pbind (format_alerts r 0 xs) (\<lambda>lines.
           Inr (NL @ NL @ [0x26A0, 0xFE0F] @ U '' Weather Alerts:'' @ lines))))
         else Inr [])))"

subsection \<open>The formatter\<close>

definition format_weather_data :: "py_repr \<Rightarrow> pyval \<Rightarrow> pystr result" where
  "format_weather_data r weather_data =
     pbind (py_path weather_data [U ''name'']) (\<lambda>city_name.
     pbind (py_path weather_data [U ''sys'', U ''country'']) (\<lambda>country.
     pbind (pbind (py_subscript_key weather_data (U ''weather'')) (\<lambda>ws.
            pbind (py_subscript_0 ws) (\<lambda>w0.
            pbind (py_subscript_key w0 (U ''description'')) py_capitalize))) (\<lambda>weather_description.
     pbind (py_path weather_data [U ''main'', U ''temp'']) (\<lambda>temperature.
     pbind (py_path weather_data [U ''main'', U ''feels_like'']) (\<lambda>feels_like.
     pbind (py_path weather_data [U ''main'', U ''humidity'']) (\<lambda>humidity.
     pbind (py_path weather_data [U ''wind'', U ''speed'']) (\<lambda>wind_speed.
     pbind (uv_section r weather_data) (\<lambda>uv.
     pbind (air_section r weather_data) (\<lambda>air.
     pbind (alerts_section r weather_data) (\<lambda>alerts.
     Inr (basic_block r city_name country weather_description temperature feels_like humidity
            wind_speed @ uv @ air @ alerts)))))))))))"

subsection \<open>The risk ladder as the specification states it\<close>

text \<open>
  The specification's UV ladder: the band of an index is the number of thresholds
  3, 6, 8, 11 at or below it (inclusive low, exclusive high); \<open>uv_rank\<close> is the
  position of a risk text in the ladder.
\<close>

definition uv_band :: "real \<Rightarrow> nat" where
  "uv_band x = length (filter (\<lambda>t. t \<le> x) [3, 6, 8, 11])"

definition uv_rank :: "pystr \<Rightarrow> nat" where
  "uv_rank s = length (takeWhile (\<lambda>t. t \<noteq> s) uv_risk_texts)"

subsection \<open>Lemmas\<close>

lemma uv_band_mono: "x \<le> y \<Longrightarrow> uv_band x \<le> uv_band y"
  by (simp add: uv_band_def)

lemma uv_band_less: "uv_band x < 5"
  by (simp add: uv_band_def)

lemma uv_rank_nth: "i < 5 \<Longrightarrow> uv_rank (uv_risk_texts ! i) = i"
proof -
  assume "i < 5"
  then have "i = 0 \<or> i = 1 \<or> i = 2 \<or> i = 3 \<or> i = 4" by arith
  then show ?thesis by (auto simp: uv_rank_def uv_risk_texts_def)
qed

lemma uv_risk_level_ladder:
  "get_uv_risk_level uvi =
     (case py_num uvi of None \<Rightarrow> Inl TypeError | Some x \<Rightarrow> Inr (uv_risk_texts ! uv_band x))"
  by (cases "py_num uvi")
     (auto simp: get_uv_risk_level_def py_less_def uv_band_def uv_risk_texts_def)

subsection \<open>Properties of the classifiers\<close>

text \<open>
  Claim C14. \<open>get_uv_risk_level\<close> is total on numbers and classifies an index by the
  specification's ladder (\<open><3\<close> Low, \<open><6\<close> Moderate, \<open><8\<close> High, \<open><11\<close> Very
  High, else Extreme); on any other value the first comparison raises TypeError.
\<close>

theorem get_uv_risk_level_bands:
  "get_uv_risk_level uvi =
     (case py_num uvi of None \<Rightarrow> Inl TypeError | Some x \<Rightarrow> Inr (uv_risk_texts ! uv_band x))"
  by (rule uv_risk_level_ladder)


text \<open>
  Claim C30. The UV classification is monotonic: a larger index never gets a lower
  risk level.
\<close>

theorem uv_risk_level_monotone:
  assumes "py_num u = Some x" and "py_num v = Some y" and "x \<le> y"
    and "get_uv_risk_level u = Inr a" and "get_uv_risk_level v = Inr b"
  shows "uv_rank a \<le> uv_rank b"
proof -
  have "a = uv_risk_texts ! uv_band x" and "b = uv_risk_texts ! uv_band y"
    using assms by (simp_all add: uv_risk_level_ladder)
  then show ?thesis
    using uv_band_mono [OF assms(3)] by (simp add: uv_rank_nth uv_band_less)
qed

theorem uv_risk_level_monotone_witness:
  "py_num (PFloat 3) = Some 3 \<and> py_num (PInt 9) = Some 9 \<and> (3::real) \<le> 9 \<and>
   get_uv_risk_level (PFloat 3) = Inr (U ''Moderate Risk (Protection recommended)'') \<and>
   get_uv_risk_level (PInt 9) = Inr (U ''Very High Risk (Extra protection needed)'') \<and>
   uv_rank (U ''Moderate Risk (Protection recommended)'') \<le>
   uv_rank (U ''Very High Risk (Extra protection needed)'')"
  using uv_risk_level_monotone [of "PFloat 3" 3 "PInt 9" 9]
  by (simp add: get_uv_risk_level_def py_less_def)

text \<open>
  Claim C18. \<open>get_air_quality_description\<close> maps the AQI values 1 to 5 to the fixed
  five-level ladder and every other integer to exactly \<open>Unknown\<close>.
\<close>

theorem air_quality_description_ladder:
  "map (\<lambda>k. get_air_quality_description (PInt k)) [1, 2, 3, 4, 5] =
     [Inr (U ''Excellent (Very Good)''), Inr (U ''Fair (Good)''), Inr (U ''Moderate (Acceptable)''),
      Inr (U ''Poor (Unhealthy)''), Inr (U ''Very Poor (Hazardous)'')] \<and>
   (\<forall>k. k < 1 \<or> 5 < k \<longrightarrow> get_air_quality_description (PInt k) = Inr (U ''Unknown''))"
  by (auto simp: get_air_quality_description_def air_quality_descriptions_def)

theorem air_quality_description_ladder_witness:
  "get_air_quality_description (PInt 0) = Inr (U ''Unknown'') \<and>
   get_air_quality_description (PInt 6) = Inr (U ''Unknown'')"
  using air_quality_description_ladder by simp



text \<open>
  Claim C15. An alert description is shown whole when it has at most 100 characters;
  a longer one is cut to its first 97 characters followed by \<open>...\<close>, 100 in all.
\<close>

theorem truncate_description_bounds:
  "\<exists>t. truncate_description (PStr s) = Inr (PStr t) \<and> length t = min (length s) 100 \<and>
     (length s \<le> 100 \<longrightarrow> t = s) \<and>
     (100 < length s \<longrightarrow> take 97 t = take 97 s \<and> drop 97 t = U ''...'')"
  by (auto simp: truncate_description_def min_def)

theorem truncate_description_bounds_witness:
  "truncate_description (PStr (replicate 150 65)) = Inr (PStr (replicate 97 65 @ U ''...'')) \<and>
   length (replicate 97 (65::nat) @ U ''...'') = 100"
proof -
  obtain t where t: "truncate_description (PStr (replicate 150 65)) = Inr (PStr t)"
    and tk: "take 97 t = replicate 97 65" and dr: "drop 97 t = U ''...''"
    using truncate_description_bounds [of "replicate 150 65"] by auto
  have "t = take 97 t @ drop 97 t" by simp
  also have "\<dots> = replicate 97 65 @ U ''...''" by (simp only: tk dr)
  finally show ?thesis using t by simp
qed

end
