(* ===== verification/Conversation.thy ===== *)
theory Conversation
  imports Weather_Source Report_Formatter
begin

text \<open>
  The conversation handlers of \<open>src/weather_bot.py\<close>: \<open>start\<close>,
  \<open>show_options_keyboard\<close>, \<open>restart_conversation\<close>, \<open>option_handler\<close>,
  \<open>handle_location\<close>, \<open>handle_city\<close>, \<open>help_command\<close> and \<open>cancel\<close>. A handler
  reads the incoming message, sends replies (\<open>update.message.reply_text\<close>) and returns
  the next conversation state. Its model returns the replies in the order they are sent
  and the next state, or the exception it raises; every exception a handler can raise
  here (from \<open>format_weather_data\<close>) is raised before its first reply.
  Sending a reply is the transport's job and is taken to succeed.
\<close>

subsection \<open>States, messages and replies\<close>

text \<open>\<open>CHOOSING_OPTION, TYPING_CITY = range(2)\<close>, and \<open>ConversationHandler.END\<close>.\<close>

datatype conv_state = CHOOSING_OPTION | TYPING_CITY

datatype next_state = Next conv_state | END

datatype keyboard_button = KeyboardButton pystr bool

datatype markup = ReplyKeyboardMarkup "keyboard_button list list" bool

datatype reply = Reply (reply_text: pystr) (reply_markup: "markup option")

type_synonym handler_result = "(reply list \<times> next_state) result"

subsection \<open>Handlers\<close>

definition options_keyboard :: markup where
  "options_keyboard =
     ReplyKeyboardMarkup
       [[KeyboardButton (U ''Share my location'') True],
        [KeyboardButton (U ''Type a city name'') False]] True"

definition show_options_keyboard :: "pystr \<Rightarrow> reply list \<times> next_state" where
  "show_options_keyboard message_text =
     ([Reply message_text (Some options_keyboard)], Next CHOOSING_OPTION)"

definition welcome_text :: pystr where
  "welcome_text =
     U ''Welcome to the Weather Bot! I can provide current weather information.'' @ NL @ NL @
     U ''Please share your location or choose to type a city name.''"

definition start :: handler_result where
  "start = Inr (show_options_keyboard welcome_text)"

definition restart_conversation :: "reply list \<times> next_state" where
  "restart_conversation = show_options_keyboard (U ''What would you like to do next?'')"

definition option_handler :: "pystr \<Rightarrow> handler_result" where
  "option_handler message_text =
     (if message_text = U ''Type a city name''
      then Inr ([Reply (U ''Please enter the name of the city:'') None], Next TYPING_CITY)
      else Inr ([], Next CHOOSING_OPTION))"

text \<open>
  The reply of a lookup: the formatted report when the weather data is truthy, else the
  apology; then the options prompt of \<open>restart_conversation\<close>.
\<close>

definition lookup_reply :: "py_repr \<Rightarrow> pyval \<Rightarrow> pystr \<Rightarrow> handler_result" where
  "lookup_reply r weather_data apology =
     pbind (if py_truthy weather_data then format_weather_data r weather_data else Inr apology)
       (\<lambda>msg. Inr (Reply msg None # fst restart_conversation, snd restart_conversation))"

definition location_apology :: pystr where
  "location_apology = U ''Sorry, I couldn't retrieve weather information for your location.''"

definition handle_location :: "py_repr \<Rightarrow> net \<Rightarrow> pyval \<Rightarrow> pyval \<Rightarrow> handler_result" where
  "handle_location r net latitude longitude =
     lookup_reply r (get_weather_by_coordinates r net latitude longitude) location_apology"

definition city_apology :: "pystr \<Rightarrow> pystr" where
  "city_apology city_name =
     U ''Sorry, I couldn't find weather information for '' @ [39] @ city_name @ [39] @ U ''.''"

definition handle_city :: "py_repr \<Rightarrow> net \<Rightarrow> pystr \<Rightarrow> handler_result" where
  "handle_city r net city_name =
     lookup_reply r (get_weather_by_city r net city_name) (city_apology city_name)"

definition help_text :: pystr where
  "help_text =
     U ''I am a Weather Bot. I can provide you with current weather information.'' @ NL @ NL @
     U ''Commands:'' @ NL @
     U ''/start - Start interacting with the bot'' @ NL @
     U ''/help - Show this help message'' @ NL @
     U ''/cancel - Cancel the current operation''"

definition help_command :: "reply list" where
  "help_command = [Reply help_text None]"

definition cancel :: handler_result where
  "cancel = Inr ([Reply (U ''Operation cancelled. Send /start to begin again.'') None], END)"

end
