(* ===== verification/Dispatcher.thy ===== *)
theory Dispatcher
  imports Conversation
begin

text \<open>
  The dispatcher: \<open>main\<close> registers, in handler group 0, a \<open>ConversationHandler\<close>
  (entry point \<open>/start\<close>; in \<open>CHOOSING_OPTION\<close> a location handler and a text
  handler, in \<open>TYPING_CITY\<close> a text handler; fallback \<open>/cancel\<close>) followed by a
  \<open>/help\<close> command handler. The model follows python-telegram-bot's rules for this
  configuration: the conversation state is kept per (chat, user) key, absent when the
  key is not in a conversation; with no state only the entry points are tried
  (\<open>allow_reentry\<close> is off), otherwise the current state's handlers and then the
  fallbacks; within a group the first handler that accepts the update handles it; a
  returned state is stored, \<open>END\<close> removes the key, and an exception raised by the
  handler is logged and leaves the state as it was. \<open>run_polling\<close> processes updates
  one at a time in arrival order (\<open>concurrent_updates\<close> is left off).

  An incoming update is classified as the transport's filters do: a shared location,
  a text that is not a command (\<open>filters.TEXT & ~filters.COMMAND\<close>), or a command
  given by its name.
\<close>

datatype event = Ev_Text pystr | Ev_Location pyval pyval | Ev_Command pystr

type_synonym conv_key = "int \<times> int"

type_synonym conversations = "conv_key \<Rightarrow> conv_state option"

datatype handler_id = H_start | H_location | H_option | H_city | H_cancel | H_help

subsection \<open>The handler table of \<open>main\<close>\<close>

definition entry_points :: "event \<Rightarrow> handler_id option" where
  "entry_points ev =
     (case ev of Ev_Command c \<Rightarrow> if c = U ''start'' then Some H_start else None | _ \<Rightarrow> None)"

fun state_handlers :: "conv_state \<Rightarrow> event \<Rightarrow> handler_id option" where
  "state_handlers CHOOSING_OPTION (Ev_Location lat lon) = Some H_location"
| "state_handlers CHOOSING_OPTION (Ev_Text t) = Some H_option"
| "state_handlers TYPING_CITY (Ev_Text t) = Some H_city"
| "state_handlers s ev = None"

definition fallbacks :: "event \<Rightarrow> handler_id option" where
  "fallbacks ev =
     (case ev of Ev_Command c \<Rightarrow> if c = U ''cancel'' then Some H_cancel else None | _ \<Rightarrow> None)"

text \<open>\<open>ConversationHandler.check_update\<close> for this configuration.\<close>

definition conv_check :: "conv_state option \<Rightarrow> event \<Rightarrow> handler_id option" where
  "conv_check st ev =
     (case st of
        None \<Rightarrow> entry_points ev
      | Some s \<Rightarrow> (case state_handlers s ev of Some h \<Rightarrow> Some h | None \<Rightarrow> fallbacks ev))"

text \<open>Group 0: the conversation handler first, then the \<open>/help\<close> command handler.\<close>

definition app_check :: "conv_state option \<Rightarrow> event \<Rightarrow> handler_id option" where
  "app_check st ev =
     (case conv_check st ev of
        Some h \<Rightarrow> Some h
      | None \<Rightarrow> if ev = Ev_Command (U ''help'') then Some H_help else None)"

fun run_handler :: "py_repr \<Rightarrow> net \<Rightarrow> handler_id \<Rightarrow> event \<Rightarrow> handler_result" where
  "run_handler r net H_start ev = start"
| "run_handler r net H_location (Ev_Location lat lon) = handle_location r net lat lon"
| "run_handler r net H_option (Ev_Text t) = option_handler t"
| "run_handler r net H_city (Ev_Text t) = handle_city r net t"
| "run_handler r net H_cancel ev = cancel"
| "run_handler r net h ev = Inl AttributeError"

subsection \<open>Processing updates\<close>

text \<open>
  How a handler's outcome changes the conversation: a returned state is stored,
  \<open>END\<close> removes the key, an exception leaves the state and sends nothing.
\<close>

definition apply_result ::
  "conversations \<Rightarrow> conv_key \<Rightarrow> handler_result \<Rightarrow> conversations \<times> reply list" where
  "apply_result convs key res =
     (case res of
        Inl e \<Rightarrow> (convs, [])
      | Inr (msgs, Next s) \<Rightarrow> (convs(key \<mapsto> s), msgs)
      | Inr (msgs, END) \<Rightarrow> (convs(key := None), msgs))"

definition process_update ::
  "py_repr \<Rightarrow> net \<Rightarrow> conversations \<Rightarrow> conv_key \<Rightarrow> event \<Rightarrow> conversations \<times> reply list" where
  "process_update r net convs key ev =
     (case app_check (convs key) ev of
        None \<Rightarrow> (convs, [])
      | Some h \<Rightarrow>
          (if h = H_help then (convs, help_command)
           else apply_result convs key (run_handler r net h ev)))"

text \<open>Updates are processed one at a time, each with the network as it is then.\<close>

fun run_updates ::
  "py_repr \<Rightarrow> conversations \<Rightarrow> (net \<times> conv_key \<times> event) list \<Rightarrow> conversations \<times> reply list" where
  "run_updates r convs [] = (convs, [])"
| "run_updates r convs ((net, k, ev) # rest) =
     (let (convs1, out1) = process_update r net convs k ev;
          (convs2, out2) = run_updates r convs1 rest
      in (convs2, out1 @ out2))"

text \<open>
  The reachable configurations, with the history of updates that led to them: from
  no conversation at all, any update for any key under any network.
\<close>

inductive reachable :: "conversations \<Rightarrow> (conv_key \<times> event) list \<Rightarrow> bool" where
  init: "reachable Map.empty []"
| step: "reachable c h \<Longrightarrow> fst (process_update r net c k ev) = c' \<Longrightarrow>
           reachable c' (h @ [(k, ev)])"

subsection \<open>Lemmas\<close>

lemmas dispatch_defs = app_check_def conv_check_def entry_points_def fallbacks_def process_update_def apply_result_def

lemma lookup_reply_ok:
  assumes "py_truthy wd \<Longrightarrow> format_weather_data r wd = Inr report"
  shows "lookup_reply r wd apology =
           Inr ([Reply (if py_truthy wd then report else apology) None,
                 Reply (U ''What would you like to do next?'') (Some options_keyboard)],
                Next CHOOSING_OPTION)"
  using assms
  by (simp add: lookup_reply_def restart_conversation_def show_options_keyboard_def)

text \<open>
  Claim C2. A city lookup in TYPING_CITY always brings the session back to
  CHOOSING_OPTION: the reply is the report (when one was fetched and formats) or the
  apology naming the city, followed by the options prompt with its keyboard.
\<close>

theorem city_lookup_returns_to_choosing:
  assumes "convs k = Some TYPING_CITY"
    and "py_truthy (get_weather_by_city r net t) \<Longrightarrow>
         format_weather_data r (get_weather_by_city r net t) = Inr report"
  shows "process_update r net convs k (Ev_Text t) =
           (convs(k \<mapsto> CHOOSING_OPTION),
            [Reply (if py_truthy (get_weather_by_city r net t) then report else city_apology t) None,
             Reply (U ''What would you like to do next?'') (Some options_keyboard)])"
  using assms lookup_reply_ok [OF assms(2)]
  by (simp add: dispatch_defs handle_city_def)

theorem city_lookup_returns_to_choosing_witness:
  "process_update (\<lambda>_. []) (\<lambda>_. Unreachable) (Map.empty((0, 0) \<mapsto> TYPING_CITY)) (0, 0)
     (Ev_Text (U ''Atlantis'')) =
   (Map.empty((0, 0) \<mapsto> CHOOSING_OPTION),
    [Reply (city_apology (U ''Atlantis'')) None,
     Reply (U ''What would you like to do next?'') (Some options_keyboard)])"
proof -
  have none: "get_weather_by_city (\<lambda>_. []) (\<lambda>_. Unreachable) (U ''Atlantis'') = PNone"
    by (simp add: get_weather_by_city_def fetch_by_city_def http_get_json_def)
  show ?thesis
    using city_lookup_returns_to_choosing [of "Map.empty((0, 0) \<mapsto> TYPING_CITY)" "(0, 0)"
        "\<lambda>_. []" "\<lambda>_. Unreachable" "U ''Atlantis''" "[]"] none
    by simp
qed

text \<open>
  Claim C1. A shared location in CHOOSING_OPTION is answered by the report or the
  fixed apology, then the options prompt, and the session stays in CHOOSING_OPTION:
  the conversation loops instead of ending.
\<close>

theorem location_lookup_returns_to_choosing:
  assumes "convs k = Some CHOOSING_OPTION"
    and "py_truthy (get_weather_by_coordinates r net lat lon) \<Longrightarrow>
         format_weather_data r (get_weather_by_coordinates r net lat lon) = Inr report"
  shows "process_update r net convs k (Ev_Location lat lon) =
           (convs,
            [Reply (if py_truthy (get_weather_by_coordinates r net lat lon) then report
                    else location_apology) None,
             Reply (U ''What would you like to do next?'') (Some options_keyboard)])"
proof -
  have "convs(k \<mapsto> CHOOSING_OPTION) = convs" using assms(1) by auto
  then show ?thesis
    using assms lookup_reply_ok [OF assms(2)]
    by (simp add: dispatch_defs handle_location_def)
qed

theorem location_lookup_returns_to_choosing_witness:
  "process_update (\<lambda>_. []) (\<lambda>_. Unreachable) (Map.empty((0, 0) \<mapsto> CHOOSING_OPTION)) (0, 0)
     (Ev_Location (PFloat 59.9) (PFloat 10.7)) =
   (Map.empty((0, 0) \<mapsto> CHOOSING_OPTION),
    [Reply location_apology None,
     Reply (U ''What would you like to do next?'') (Some options_keyboard)])"
proof -
  have none: "get_weather_by_coordinates (\<lambda>_. []) (\<lambda>_. Unreachable) (PFloat 59.9) (PFloat 10.7) = PNone"
    by (simp add: get_weather_by_coordinates_def fetch_by_coordinates_def http_get_json_def)
  show ?thesis
    using location_lookup_returns_to_choosing [of "Map.empty((0, 0) \<mapsto> CHOOSING_OPTION)" "(0, 0)"
        "\<lambda>_. []" "\<lambda>_. Unreachable" "PFloat 59.9" "PFloat 10.7" "[]"] none
    by simp
qed

text \<open>
  Claim C5. If the fetched weather data is truthy but format_weather_data raises (a
  provider answer without the fields it reads), the handler raises: the user gets no
  reply and the session stays in TYPING_CITY.
\<close>

theorem lookup_format_error_keeps_state:
  assumes "convs k = Some TYPING_CITY"
    and "py_truthy (get_weather_by_city r net t)"
    and "format_weather_data r (get_weather_by_city r net t) = Inl e"
  shows "process_update r net convs k (Ev_Text t) = (convs, [])"
  using assms by (simp add: dispatch_defs handle_city_def lookup_reply_def)

theorem lookup_format_error_keeps_state_witness:
  "process_update (\<lambda>_. [])
     (\<lambda>_. Response 200 (Some (PDict [(U ''coord'', PDict [(U ''lat'', PInt 0), (U ''lon'', PInt 0)])])))
     (Map.empty((0, 0) \<mapsto> TYPING_CITY)) (0, 0) (Ev_Text (U ''Oslo'')) =
   (Map.empty((0, 0) \<mapsto> TYPING_CITY), [])"
proof -
  let ?net = "\<lambda>_::pystr. Response 200
     (Some (PDict [(U ''coord'', PDict [(U ''lat'', PInt 0), (U ''lon'', PInt 0)])]))"
  have wd: "get_weather_by_city (\<lambda>_. []) ?net (U ''Oslo'') =
     PDict [(U ''coord'', PDict [(U ''lat'', PInt 0), (U ''lon'', PInt 0)]),
            (U ''air_pollution'', PNone), (U ''uvi'', PNone), (U ''alerts'', PList [])]"
    by (simp add: get_weather_by_city_def fetch_by_city_def get_weather_by_coordinates_def
        fetch_by_coordinates_def http_get_json_def combine_weather_def)
  have t: "py_truthy (get_weather_by_city (\<lambda>_. []) ?net (U ''Oslo''))"
    using wd by simp
  have e: "format_weather_data (\<lambda>_. []) (get_weather_by_city (\<lambda>_. []) ?net (U ''Oslo'')) =
      Inl KeyError"
    using wd by (simp add: format_weather_data_def)
  show ?thesis
    using lookup_format_error_keeps_state [of "Map.empty((0, 0) \<mapsto> TYPING_CITY)" "(0, 0)"
        "\<lambda>_. []" ?net "U ''Oslo''" KeyError, OF _ t e]
    by simp
qed

text \<open>
  Claim C3. In CHOOSING_OPTION the exact text \<open>Type a city name\<close> moves
  the session to TYPING_CITY with the prompt for a city; any other text leaves the
  state unchanged and sends nothing.
\<close>

theorem choosing_text_transition:
  assumes "convs k = Some CHOOSING_OPTION"
  shows "process_update r net convs k (Ev_Text t) =
           (if t = U ''Type a city name''
            then (convs(k \<mapsto> TYPING_CITY), [Reply (U ''Please enter the name of the city:'') None])
            else (convs, []))"
proof -
  have "convs(k \<mapsto> CHOOSING_OPTION) = convs" using assms by auto
  then show ?thesis using assms by (simp add: dispatch_defs option_handler_def)
qed

theorem choosing_text_transition_witness:
  "process_update (\<lambda>_. []) (\<lambda>_. Unreachable) (Map.empty((0, 0) \<mapsto> CHOOSING_OPTION)) (0, 0)
     (Ev_Text (U ''Type a city name'')) =
   (Map.empty((0, 0) \<mapsto> TYPING_CITY), [Reply (U ''Please enter the name of the city:'') None]) \<and>
   process_update (\<lambda>_. []) (\<lambda>_. Unreachable) (Map.empty((0, 0) \<mapsto> CHOOSING_OPTION)) (0, 0)
     (Ev_Text (U ''London'')) =
   (Map.empty((0, 0) \<mapsto> CHOOSING_OPTION), [])"
  using choosing_text_transition [of "Map.empty((0, 0) \<mapsto> CHOOSING_OPTION)" "(0, 0)"]
  by simp

text \<open>
  Claim C7. \<open>/cancel\<close> in either conversation state ends the conversation
  (the key is removed) and acknowledges the cancellation.
\<close>

theorem cancel_in_conversation:
  assumes "convs k \<noteq> None"
  shows "process_update r net convs k (Ev_Command (U ''cancel'')) =
           (convs(k := None), [Reply (U ''Operation cancelled. Send /start to begin again.'') None])"
proof -
  obtain s where s: "convs k = Some s" using assms by blast
  then show ?thesis by (cases s) (simp_all add: dispatch_defs cancel_def)
qed

theorem cancel_in_conversation_witness:
  "process_update (\<lambda>_. []) (\<lambda>_. Unreachable) (Map.empty((0, 0) \<mapsto> TYPING_CITY)) (0, 0)
     (Ev_Command (U ''cancel'')) =
   (Map.empty, [Reply (U ''Operation cancelled. Send /start to begin again.'') None])"
  using cancel_in_conversation [of "Map.empty((0, 0) \<mapsto> TYPING_CITY)" "(0, 0)"]
  by simp

text \<open>
  Claim C21. \<open>/cancel\<close> outside a conversation is handled by no handler:
  nothing is sent and nothing changes.
\<close>

theorem cancel_outside_conversation_ignored:
  "convs k = None \<Longrightarrow> process_update r net convs k (Ev_Command (U ''cancel'')) = (convs, [])"
  by (simp add: dispatch_defs)

theorem cancel_outside_conversation_ignored_witness:
  "process_update (\<lambda>_. []) (\<lambda>_. Unreachable) Map.empty (0, 0) (Ev_Command (U ''cancel'')) =
   (Map.empty, [])"
  using cancel_outside_conversation_ignored [of Map.empty "(0, 0)"]
  by simp

text \<open>
  Claim C20. \<open>/start\<close> starts a conversation only when none is active
  (welcome text with the options keyboard, state CHOOSING_OPTION); during a
  conversation it is ignored, since re-entry is off.
\<close>

theorem start_command:
  "process_update r net convs k (Ev_Command (U ''start'')) =
     (if convs k = None
      then (convs(k \<mapsto> CHOOSING_OPTION), [Reply welcome_text (Some options_keyboard)])
      else (convs, []))"
  by (cases "convs k") (auto simp: dispatch_defs start_def show_options_keyboard_def
      split: conv_state.split)

text \<open>
  Claim C23. \<open>/help\<close> is answered with the help text in every state and
  never changes the conversation.
\<close>

theorem help_command_any_state:
  "process_update r net convs k (Ev_Command (U ''help'')) = (convs, help_command)"
  by (cases "convs k") (auto simp: dispatch_defs split: conv_state.split)

text \<open>
  Claim C22. A shared location while the bot waits for a city name matches no handler:
  it is ignored and the session keeps waiting.
\<close>

theorem location_ignored_while_typing_city:
  "convs k = Some TYPING_CITY \<Longrightarrow> process_update r net convs k (Ev_Location lat lon) = (convs, [])"
  by (simp add: dispatch_defs)

theorem location_ignored_while_typing_city_witness:
  "process_update (\<lambda>_. []) (\<lambda>_. Unreachable) (Map.empty((0, 0) \<mapsto> TYPING_CITY)) (0, 0)
     (Ev_Location (PFloat 59.9) (PFloat 10.7)) =
   (Map.empty((0, 0) \<mapsto> TYPING_CITY), [])"
  using location_ignored_while_typing_city [of "Map.empty((0, 0) \<mapsto> TYPING_CITY)" "(0, 0)"]
  by simp

lemma apply_result_other:
  "k' \<noteq> k \<Longrightarrow> fst (apply_result convs k res) k' = convs k'"
  by (simp add: apply_result_def split: sum.split prod.split next_state.split)



lemma process_update_cancel:
  "fst (process_update r net convs k (Ev_Command (U ''cancel''))) k = None"
proof (cases "convs k")
  case None
  then show ?thesis by (simp add: dispatch_defs)
next
  case (Some s)
  then show ?thesis by (cases s) (simp_all add: dispatch_defs cancel_def)
qed

text \<open>
  Claim C6. In every reachable configuration, a key has a conversation state only if
  its history contains a \<open>/start\<close> with no \<open>/cancel\<close> of that
  key after it.
\<close>

theorem session_exists_only_after_start:
  assumes "reachable c h" and "c k \<noteq> None"
  shows "\<exists>h1 h2. h = h1 @ (k, Ev_Command (U ''start'')) # h2 \<and>
           (k, Ev_Command (U ''cancel'')) \<notin> set h2"
  using assms
proof (induction arbitrary: k rule: reachable.induct)
  case init
  then show ?case by simp
next
  case (step c h r net k0 ev c' k)
  show ?case
  proof (cases "k = k0")
    case False
    have "c' k = c k"
      using step.hyps(2) False
      by (auto simp: process_update_def apply_result_other split: option.split)
    with step.prems have "c k \<noteq> None" by simp
    then obtain h1 h2 where "h = h1 @ (k, Ev_Command (U ''start'')) # h2"
      and "(k, Ev_Command (U ''cancel'')) \<notin> set h2"
      using step.IH by blast
    with False show ?thesis by (intro exI [of _ h1] exI [of _ "h2 @ [(k0, ev)]"]) auto
  next
    case True
    have not_cancel: "ev \<noteq> Ev_Command (U ''cancel'')"
    proof
      assume "ev = Ev_Command (U ''cancel'')"
      then have "c' k = None"
        using step.hyps(2) True process_update_cancel [of r net c k0] by simp
      with step.prems show False by simp
    qed
    show ?thesis
    proof (cases "c k = None")
      case True
      with \<open>k = k0\<close> step.hyps(2) step.prems have "ev = Ev_Command (U ''start'')"
        by (auto simp: process_update_def app_check_def conv_check_def entry_points_def
            split: option.splits event.splits if_splits)
      with \<open>k = k0\<close> show ?thesis by (intro exI [of _ h] exI [of _ "[]"]) simp
    next
      case False
      then obtain h1 h2 where "h = h1 @ (k, Ev_Command (U ''start'')) # h2"
        and "(k, Ev_Command (U ''cancel'')) \<notin> set h2"
        using step.IH by blast
      with not_cancel \<open>k = k0\<close> show ?thesis
        by (intro exI [of _ h1] exI [of _ "h2 @ [(k0, ev)]"]) auto
    qed
  qed
qed

theorem session_exists_only_after_start_witness:
  "reachable (Map.empty((0, 0) \<mapsto> CHOOSING_OPTION)) [((0, 0), Ev_Command (U ''start''))] \<and>
   (\<exists>h1 h2. [((0::int, 0::int), Ev_Command (U ''start''))] =
      h1 @ ((0, 0), Ev_Command (U ''start'')) # h2 \<and>
      ((0, 0), Ev_Command (U ''cancel'')) \<notin> set h2)"
proof -
  have "fst (process_update (\<lambda>_. []) (\<lambda>_. Unreachable) Map.empty (0, 0) (Ev_Command (U ''start''))) =
      Map.empty((0, 0) \<mapsto> CHOOSING_OPTION)"
    by (simp add: dispatch_defs start_def show_options_keyboard_def)
  then have r: "reachable (Map.empty((0, 0) \<mapsto> CHOOSING_OPTION)) [((0, 0), Ev_Command (U ''start''))]"
    using reachable.step [OF reachable.init] by fastforce
  show ?thesis
    using r session_exists_only_after_start [OF r, of "(0, 0)"] by simp
qed

text \<open>
  Claim C8. From any state, whatever the network does, \<open>/cancel\<close> followed
  by \<open>/start\<close> puts the session in CHOOSING_OPTION: no session is stuck
  for good.
\<close>

theorem cancel_then_start_recovers:
  "fst (run_updates r convs [(net1, k, Ev_Command (U ''cancel'')), (net2, k, Ev_Command (U ''start''))]) k =
   Some CHOOSING_OPTION"
proof -
  obtain c1 out1 where p1: "process_update r net1 convs k (Ev_Command (U ''cancel'')) = (c1, out1)"
    by (cases "process_update r net1 convs k (Ev_Command (U ''cancel''))")
  obtain c2 out2 where p2: "process_update r net2 c1 k (Ev_Command (U ''start'')) = (c2, out2)"
    by (cases "process_update r net2 c1 k (Ev_Command (U ''start''))")
  have "c1 k = None" using p1 process_update_cancel [of r net1 convs k] by simp
  then have "c2 k = Some CHOOSING_OPTION"
    using p2 by (auto simp: dispatch_defs start_def show_options_keyboard_def)
  moreover have "run_updates r convs [(net1, k, Ev_Command (U ''cancel'')),
      (net2, k, Ev_Command (U ''start''))] = (c2, out1 @ out2)"
    by (simp only: run_updates.simps p1 p2 Let_def prod.case append_Nil2)
  ultimately show ?thesis by simp
qed

end
