(* ===== verification/Report.thy ===== *)
theory Report
  imports Weather_Source Report_Formatter
begin

text \<open>
  The specification's view of a weather report (section 3 of the spec) and of its
  rendering (section 4.2), and the provider's JSON for it (section 6). A typed
  \<open>weather_report\<close> is encoded into the three provider answers; the refinement
  theorems show that the weather source merges them into \<open>report_json\<close> and that
  \<open>format_weather_data\<close>, which reads that dynamic value field by field, renders it as
  \<open>render_report\<close> renders the typed record: sections in the fixed order, the UV ladder,
  the AQI ladder with \<open>Unknown\<close> outside 1..5, \<open>N/A\<close> for a missing pollutant, at most
  three alerts numbered from 1 with long descriptions shortened.
\<close>

subsection \<open>The typed report\<close>

record conditions =
  description :: pystr
  temp_c :: real
  feels_like_c :: real
  humidity_pct :: int
  wind_speed_mps :: real

record air_quality =
  aqi :: int
  pm2_5 :: "real option"
  pm10 :: "real option"
  no2 :: "real option"

record alert =
  alert_event :: pystr
  alert_description :: pystr

record weather_report =
  city :: pystr
  country_code :: pystr
  conds :: conditions
  uv_index :: "real option"
  air :: "air_quality option"
  alerts :: "alert list"

text \<open>
  The provider's descriptions are lower case after the first letter; the specification
  asks for the first letter capitalised.
\<close>

definition valid_report :: "weather_report \<Rightarrow> bool" where
  "valid_report w \<longleftrightarrow> (\<forall>c \<in> set (drop 1 (description (conds w))). \<not> (65 \<le> c \<and> c \<le> 90))"

subsection \<open>The provider's JSON\<close>

definition current_json :: "weather_report \<Rightarrow> (pystr \<times> pyval) list" where
  "current_json w =
     [(U ''weather'', PList [PDict [(U ''description'', PStr (description (conds w)))]]),
      (U ''main'', PDict [(U ''temp'', PFloat (temp_c (conds w))),
                         (U ''feels_like'', PFloat (feels_like_c (conds w))),
                         (U ''humidity'', PInt (humidity_pct (conds w)))]),
      (U ''wind'', PDict [(U ''speed'', PFloat (wind_speed_mps (conds w)))]),
      (U ''sys'', PDict [(U ''country'', PStr (country_code w))]),
      (U ''name'', PStr (city w))]"

definition opt_field :: "pystr \<Rightarrow> real option \<Rightarrow> (pystr \<times> pyval) list" where
  "opt_field k v = (case v of None \<Rightarrow> [] | Some x \<Rightarrow> [(k, PFloat x)])"

definition air_entry_json :: "air_quality \<Rightarrow> pyval" where
  "air_entry_json a =
     PDict [(U ''main'', PDict [(U ''aqi'', PInt (aqi a))]),
            (U ''components'', PDict (opt_field (U ''pm2_5'') (pm2_5 a) @
                                     opt_field (U ''pm10'') (pm10 a) @
                                     opt_field (U ''no2'') (no2 a)))]"

definition pollution_json :: "weather_report \<Rightarrow> (pystr \<times> pyval) list" where
  "pollution_json w =
     [(U ''list'', PList (case air w of None \<Rightarrow> [] | Some a \<Rightarrow> [air_entry_json a]))]"

definition alert_json :: "alert \<Rightarrow> pyval" where
  "alert_json a =
     PDict [(U ''event'', PStr (alert_event a)), (U ''description'', PStr (alert_description a))]"

definition onecall_json :: "weather_report \<Rightarrow> (pystr \<times> pyval) list" where
  "onecall_json w =
     [(U ''current'', PDict (opt_field (U ''uvi'') (uv_index w)))] @
     (if alerts w = [] then [] else [(U ''alerts'', PList (map alert_json (alerts w)))])"

text \<open>The merged report as the weather source hands it to the formatter.\<close>

definition report_json :: "weather_report \<Rightarrow> pyval" where
  "report_json w =
     PDict (current_json w @
            [(U ''air_pollution'', case air w of None \<Rightarrow> PNone | Some a \<Rightarrow> air_entry_json a),
             (U ''uvi'', case uv_index w of None \<Rightarrow> PNone | Some u \<Rightarrow> PFloat u),
             (U ''alerts'', PList (map alert_json (alerts w)))])"

subsection \<open>The rendering the specification describes\<close>

definition capitalize_first :: "pystr \<Rightarrow> pystr" where
  "capitalize_first s = (case s of [] \<Rightarrow> [] | c # cs \<Rightarrow> ascii_upper c # cs)"

definition aqi_text :: "int \<Rightarrow> pystr" where
  "aqi_text k =
     (if 1 \<le> k \<and> k \<le> 5
      then [U ''Excellent (Very Good)'', U ''Fair (Good)'', U ''Moderate (Acceptable)'',
            U ''Poor (Unhealthy)'', U ''Very Poor (Hazardous)''] ! nat (k - 1)
      else U ''Unknown'')"

definition shorten :: "pystr \<Rightarrow> pystr" where
  "shorten s = (if 100 < length s then take 97 s @ U ''...'' else s)"

definition render_conditions :: "py_repr \<Rightarrow> weather_report \<Rightarrow> pystr" where
  "render_conditions r w =
     [0x1F4CD] @ U '' Location: '' @ city w @ U '', '' @ country_code w @ NL @
     [0x1F324] @ U '' Weather: '' @ capitalize_first (description (conds w)) @ NL @
     [0x1F321] @ U '' Temperature: '' @ r (PFloat (temp_c (conds w))) @ [0xB0] @ U ''C'' @ NL @
     [0x1F914] @ U '' Feels like: '' @ r (PFloat (feels_like_c (conds w))) @ [0xB0] @ U ''C'' @ NL @
     [0x1F4A7] @ U '' Humidity: '' @ show_int (humidity_pct (conds w)) @ U ''%'' @ NL @
     [0x1F4A8] @ U '' Wind speed: '' @ r (PFloat (wind_speed_mps (conds w))) @ U '' m/s''"

definition render_uv :: "py_repr \<Rightarrow> real option \<Rightarrow> pystr" where
  "render_uv r u =
     (case u of
        None \<Rightarrow> []
      | Some x \<Rightarrow> NL @ NL @ [0x2600, 0xFE0F] @ U '' UV Index: '' @ r (PFloat x) @ U '' - '' @
                  uv_risk_texts ! uv_band x)"

definition pollutant_text :: "py_repr \<Rightarrow> real option \<Rightarrow> pystr" where
  "pollutant_text r v = (case v of None \<Rightarrow> U ''N/A'' | Some x \<Rightarrow> r (PFloat x))"

definition render_air :: "py_repr \<Rightarrow> air_quality option \<Rightarrow> pystr" where
  "render_air r aq =
     (case aq of
        None \<Rightarrow> []
      | Some a \<Rightarrow>
          NL @ NL @ [0x1F32C] @ U '' Air Quality: '' @ aqi_text (aqi a) @
          NL @ U ''   - PM2.5: '' @ pollutant_text r (pm2_5 a) @ U '' '' @ [0x3BC, 103, 47, 109, 0xB3] @
          NL @ U ''   - PM10: '' @ pollutant_text r (pm10 a) @ U '' '' @ [0x3BC, 103, 47, 109, 0xB3] @
          NL @ U ''   - NO'' @ [0x2082] @ U '': '' @ pollutant_text r (no2 a) @ U '' '' @
          [0x3BC, 103, 47, 109, 0xB3])"

definition alert_line :: "nat \<Rightarrow> alert \<Rightarrow> pystr" where
  "alert_line n a =
     NL @ show_int (int n) @ U ''. '' @ alert_event a @ U '': '' @ shorten (alert_description a)"

definition render_alerts :: "alert list \<Rightarrow> pystr" where
  "render_alerts as =
     (if as = [] then []
      else NL @ NL @ [0x26A0, 0xFE0F] @ U '' Weather Alerts:'' @
           concat (map (\<lambda>(n, a). alert_line n a) (enumerate 1 (take 3 as))))"

definition render_report :: "py_repr \<Rightarrow> weather_report \<Rightarrow> pystr" where
  "render_report r w =
     render_conditions r w @ render_uv r (uv_index w) @ render_air r (air w) @ render_alerts (alerts w)"

subsection \<open>A sample report and a provider serving it\<close>

definition example_report :: weather_report where
  "example_report =
     \<lparr>city = U ''Oslo'', country_code = U ''NO'',
      conds = \<lparr>description = U ''light rain'', temp_c = 5.5, feels_like_c = 2, humidity_pct = 81,
               wind_speed_mps = 4.1\<rparr>,
      uv_index = Some 9.5, air = None,
      alerts = [\<lparr>alert_event = U ''Wind warning'', alert_description = U ''Strong wind''\<rparr>]\<rparr>"

definition example_net :: net where
  "example_net u =
     (if u = weather_url (\<lambda>_. []) (PInt 0) (PInt 0)
      then Response 200 (Some (PDict (current_json example_report)))
      else if u = pollution_url (\<lambda>_. []) (PInt 0) (PInt 0)
      then Response 200 (Some (PDict (pollution_json example_report)))
      else if u = onecall_url (\<lambda>_. []) (PInt 0) (PInt 0)
      then Response 200 (Some (PDict (onecall_json example_report)))
      else Unreachable)"

subsection \<open>Lemmas\<close>

lemma truncate_description_str: "truncate_description (PStr s) = Inr (PStr (shorten s))"
  by (simp add: truncate_description_def shorten_def)

lemma format_alerts_json:
  "format_alerts r i (map alert_json as) =
     Inr (concat (map (\<lambda>(n, a). alert_line n a) (enumerate (Suc i) as)))"
proof (induction as arbitrary: i)
  case Nil
  then show ?case by simp
next
  case (Cons a as)
  then show ?case
    by (simp add: alert_json_def truncate_description_str alert_line_def add.commute)
qed

lemma alerts_section_json:
  "alerts_section r (report_json w) = Inr (render_alerts (alerts w))"
  by (simp add: alerts_section_def report_json_def current_json_def render_alerts_def
      take_map format_alerts_json)

lemma get_air_quality_description_int: "get_air_quality_description (PInt k) = Inr (aqi_text k)"
proof -
  have "k < 1 \<or> k = 1 \<or> k = 2 \<or> k = 3 \<or> k = 4 \<or> k = 5 \<or> 5 < k" by arith
  then show ?thesis
    by (auto simp: get_air_quality_description_def air_quality_descriptions_def aqi_text_def)
qed

lemma air_section_json:
  "air_section r (report_json w) = Inr (render_air r (air w))"
proof (cases "air w")
  case None
  then show ?thesis
    by (simp add: air_section_def report_json_def current_json_def render_air_def)
next
  case (Some a)
  then show ?thesis
    by (cases "pm2_5 a"; cases "pm10 a"; cases "no2 a")
       (simp_all add: air_section_def report_json_def current_json_def render_air_def
        air_entry_json_def get_air_quality_description_int opt_field_def pollutant_text_def
        pollutant_line_def)
qed

lemma uv_section_json:
  "uv_section r (report_json w) = Inr (render_uv r (uv_index w))"
  by (cases "uv_index w")
     (simp_all add: uv_section_def report_json_def current_json_def render_uv_def uv_risk_level_ladder)

lemma capitalize_valid:
  assumes "\<forall>c \<in> set (drop 1 s). \<not> (65 \<le> c \<and> c \<le> 90)"
  shows "capitalize s = capitalize_first s"
proof (cases s)
  case Nil
  then show ?thesis by (simp add: capitalize_def capitalize_first_def)
next
  case (Cons c cs)
  with assms have "map ascii_lower cs = cs"
    by (auto simp: ascii_lower_def intro: map_idI)
  with Cons show ?thesis by (simp add: capitalize_def capitalize_first_def)
qed

lemma format_report_json:
  assumes "valid_report w"
  shows "format_weather_data r (report_json w) = Inr (render_report r w)"
proof -
  have cap: "capitalize (description (conds w)) = capitalize_first (description (conds w))"
    using assms by (simp add: valid_report_def capitalize_valid)
  show ?thesis
    unfolding format_weather_data_def uv_section_json air_section_json alerts_section_json
    by (simp add: report_json_def current_json_def basic_block_def render_report_def
        render_conditions_def cap)
qed

lemma combine_report_json:
  "combine_weather (PDict (current_json w)) (PDict (pollution_json w)) (PDict (onecall_json w)) =
     Inr (report_json w)"
  by (cases "air w"; cases "uv_index w"; cases "alerts w = []")
     (simp_all add: combine_weather_def current_json_def pollution_json_def onecall_json_def
       report_json_def opt_field_def)

lemma coordinates_report_json:
  assumes "http_get_json net (weather_url r lat lon) = Inr (PDict (current_json w))"
    and "http_get_json net (pollution_url r lat lon) = Inr (PDict (pollution_json w))"
    and "http_get_json net (onecall_url r lat lon) = Inr (PDict (onecall_json w))"
  shows "get_weather_by_coordinates r net lat lon = report_json w"
  using assms combine_report_json
  by (simp add: get_weather_by_coordinates_def fetch_by_coordinates_def)

subsection \<open>Refinement theorems\<close>

text \<open>
  Claim C11. The formatter refines the specification's rendering: on the merged report
  of any valid typed report, \<open>format_weather_data\<close> succeeds and yields exactly
  \<open>render_report\<close>: the conditions block, then the UV line (ladder of 4.2), the
  air-quality block (AQI ladder, \<open>N/A\<close> placeholders) and at most three alerts
  numbered from 1, each section only when present.
\<close>

theorem format_report_refines:
  assumes "valid_report w"
  shows "format_weather_data r (report_json w) = Inr (render_report r w)"
  using assms by (rule format_report_json)

theorem format_report_refines_witness:
  "valid_report example_report \<and>
   format_weather_data (\<lambda>_. []) (report_json example_report) =
     Inr (render_report (\<lambda>_. []) example_report)"
proof -
  have v: "valid_report example_report"
    by (simp add: valid_report_def example_report_def)
  show ?thesis using v format_report_refines [OF v] by simp
qed

text \<open>
  Claim C12. The weather source refines the specification's merge: when the provider
  answers the three requests with the JSON of a typed report, the lookup by
  coordinates returns that report's merged form.
\<close>

theorem coordinates_refine_report:
  assumes "http_get_json net (weather_url r lat lon) = Inr (PDict (current_json w))"
    and "http_get_json net (pollution_url r lat lon) = Inr (PDict (pollution_json w))"
    and "http_get_json net (onecall_url r lat lon) = Inr (PDict (onecall_json w))"
  shows "get_weather_by_coordinates r net lat lon = report_json w"
  using assms by (rule coordinates_report_json)

theorem coordinates_refine_report_witness:
  "http_get_json example_net (weather_url (\<lambda>_. []) (PInt 0) (PInt 0)) =
     Inr (PDict (current_json example_report)) \<and>
   http_get_json example_net (pollution_url (\<lambda>_. []) (PInt 0) (PInt 0)) =
     Inr (PDict (pollution_json example_report)) \<and>
   http_get_json example_net (onecall_url (\<lambda>_. []) (PInt 0) (PInt 0)) =
     Inr (PDict (onecall_json example_report)) \<and>
   get_weather_by_coordinates (\<lambda>_. []) example_net (PInt 0) (PInt 0) = report_json example_report"
proof -
  have w: "http_get_json example_net (weather_url (\<lambda>_. []) (PInt 0) (PInt 0)) =
      Inr (PDict (current_json example_report))"
    by (simp add: http_get_json_def example_net_def)
  have p: "http_get_json example_net (pollution_url (\<lambda>_. []) (PInt 0) (PInt 0)) =
      Inr (PDict (pollution_json example_report))"
    by (simp add: http_get_json_def example_net_def weather_url_def pollution_url_def)
  have o: "http_get_json example_net (onecall_url (\<lambda>_. []) (PInt 0) (PInt 0)) =
      Inr (PDict (onecall_json example_report))"
    by (simp add: http_get_json_def example_net_def weather_url_def pollution_url_def
        onecall_url_def)
  show ?thesis using w p o coordinates_refine_report [OF w p o] by simp
qed

end
