(* ===== verification/Spec2Isabelle.thy ===== *)
theory Spec2Isabelle
  imports Dispatcher Report
begin

text \<open>
  \<^bold>\<open>A verification development for \<open>src/weather_bot.py\<close>.\<close>

  The program is a Telegram bot. A user shares a location or types a city name; the
  bot fetches the current weather, the air pollution and the UV index and alerts from
  OpenWeatherMap, renders them as text and answers. Four parts interact:
  \<^item> the \<^emph>\<open>weather source\<close> (\<open>get_weather_by_coordinates\<close>,
    \<open>get_weather_by_city\<close>) makes the HTTP requests and merges the three answers
    into one dict, or returns None;
  \<^item> the \<^emph>\<open>report formatter\<close> (\<open>format_weather_data\<close>,
    \<open>get_uv_risk_level\<close>, \<open>get_air_quality_description\<close>) turns that dict into
    text;
  \<^item> the \<^emph>\<open>conversation handlers\<close> (\<open>start\<close>, \<open>option_handler\<close>,
    \<open>handle_location\<close>, \<open>handle_city\<close>, \<open>cancel\<close>, \<open>help_command\<close>, with
    \<open>show_options_keyboard\<close> and \<open>restart_conversation\<close>) call the source and
    the formatter and return the next conversation state;
  \<^item> the \<^emph>\<open>dispatcher\<close> built in \<open>main\<close> (a python-telegram-bot
    \<open>ConversationHandler\<close> and a \<open>/help\<close> handler in one group) chooses the
    handler for each update from the per-(chat, user) state and stores the state the
    handler returns.

  \<^bold>\<open>Theories.\<close>
  \<^item> \<open>Prelude\<close>: Python strings as code-point lists (\<open>pystr\<close>, literals
    \<open>U ''...''\<close>), the exception datatype \<open>exn\<close>, results \<open>exn + 'a\<close> sequenced by
    \<open>pbind\<close>, the \<open>py_simps\<close> collection.
  \<^item> \<open>Python\<close>: the dynamic values of \<open>.json()\<close> (\<open>pyval\<close>) and the built-ins the
    program applies to them, each raising where Python raises (subscript, \<open>get\<close>, item
    assignment, \<open>len\<close>, slicing, iteration, truthiness, \<open><\<close>, \<open>str()\<close>,
    \<open>capitalize\<close>). \<open>str()\<close> of floats, lists and dicts is CPython's \<open>repr\<close>, a
    parameter \<open>r\<close> of every rendering function: all theorems hold for every \<open>r\<close>.
  \<^item> \<open>Weather_Source\<close>: lines 24 and 88--140. The network is a parameter \<open>net\<close>
    from the URL string to a response; \<open>http_get_json\<close> is \<open>requests.get\<close>,
    \<open>raise_for_status\<close>, \<open>.json()\<close>; \<open>fetch_by_coordinates\<close> and
    \<open>fetch_by_city\<close> are the \<open>try\<close> bodies, \<open>get_weather_by_coordinates\<close> and
    \<open>get_weather_by_city\<close> add the \<open>except\<close> clause (None). \<open>query_params\<close> is the
    provider's reading of a URL.
  \<^item> \<open>Report_Formatter\<close>: lines 143--222, one definition per section of the text
    (\<open>basic_block\<close>, \<open>uv_section\<close>, \<open>air_section\<close>, \<open>alerts_section\<close> with the
    loop \<open>format_alerts\<close> and \<open>truncate_description\<close>); \<open>uv_band\<close> is the
    specification's threshold ladder.
  \<^item> \<open>Conversation\<close>: lines 19--85 and 225--239. A handler returns its replies in
    sending order and the next state (\<open>Next s\<close> or \<open>END\<close>), or the exception it
    raises.
  \<^item> \<open>Dispatcher\<close>: lines 242--267. \<open>entry_points\<close>, \<open>state_handlers\<close> and
    \<open>fallbacks\<close> are the table of \<open>main\<close>; \<open>conv_check\<close> and \<open>app_check\<close> are
    python-telegram-bot's choice of handler for it (no re-entry, group order);
    \<open>apply_result\<close> stores the state, removes the key on \<open>END\<close> and keeps it on an
    exception; \<open>process_update\<close> is one update, \<open>run_updates\<close> the sequential
    polling loop, \<open>reachable\<close> the configurations reachable from no conversation.
  \<^item> \<open>Report\<close>: the specification's typed report (section 3), its rendering
    (section 4.2) and the provider's JSON for it (section 6), with the refinement lemmas
    that connect them to the code.
  \<^item> \<open>Spec2Isabelle\<close> (this theory): end-to-end statements across all parts.

  \<^bold>\<open>What is proved.\<close>
  Weather source: a report exists only when all three requests succeeded (so the
  "optional" sources are not optional); the merge sets \<open>air_pollution\<close>, \<open>uvi\<close>,
  \<open>alerts\<close> as the code does, with None/[] defaults; the result is None or a dict with
  those keys; it depends only on the three requests; the city lookup is geocoding
  followed by the coordinate lookup; the city URL round-trips the name unless it holds
  \<open>&\<close> or \<open>#\<close>, and a name with \<open>&\<close> injects parameters.
  Formatter: the UV ladder (total on numbers, exact at the listed boundaries,
  monotonic), the AQI ladder with \<open>Unknown\<close>, numeric dict keys, truncation to 100
  characters, and refinement of the specification's rendering on valid reports.
  State machine: the loop back to CHOOSING_OPTION after every lookup (report or
  apology), the exact-text transition to TYPING_CITY, cancellation, \<open>/start\<close> and
  \<open>/help\<close> behaviour, independence of sessions, the invariant that a conversation
  exists only after \<open>/start\<close> (rule induction over \<open>reachable\<close>), recovery by
  \<open>/cancel\<close> then \<open>/start\<close>, and the error path where a report that cannot be
  formatted leaves the session in TYPING_CITY with no reply.

  \<^bold>\<open>Bounds and termination.\<close> No fuel is needed: every loop of the program is over a
  finite list (the at most three alerts; the updates of \<open>run_updates\<close>) and is a
  structural \<open>fun\<close>; \<open>digits_of_nat\<close> terminates by the measure of its argument.

  \<^bold>\<open>Not modelled.\<close> Logging, the token and \<open>Application.builder\<close> (no effect on
  replies); the transport's I/O (replies are taken as delivered); how Telegram and the
  library's filters classify a message (the \<open>event\<close> datatype takes the classification
  of spec section 4.4); \<open>requests\<close>' re-quoting of URLs (inside \<open>net\<close>); CPython's
  float and container \<open>repr\<close> (the parameter \<open>r\<close>); Unicode case tables
  (\<open>capitalize\<close> maps ASCII letters only); library timeouts and persistence.

  \<^bold>\<open>Plan for later sittings.\<close> The \<open>show_int\<close> read-back round trip; alert
  rendering for non-dict alerts and non-string descriptions (error branches); traces
  with interleaved sessions and the ordering of a cancellation after a lookup; a
  refinement of the per-session machine to the specification's transition table.
\<close>

subsection \<open>Sample providers for the end-to-end statements\<close>

definition example_net_no_pollution :: net where
  "example_net_no_pollution u =
     (if u = pollution_url (\<lambda>_. []) (PInt 0) (PInt 0) then Response 503 None else example_net u)"


subsection \<open>End-to-end properties\<close>

text \<open>
  Claim C9. End to end, the successful path: a session in CHOOSING_OPTION shares a
  location; the provider answers the three requests with the JSON of a valid typed
  report; the bot replies with exactly the specification's rendering of that report,
  then the options prompt, and stays in CHOOSING_OPTION.
\<close>

theorem location_report_end_to_end:
  assumes "valid_report w" and "convs k = Some CHOOSING_OPTION"
    and "http_get_json net (weather_url r lat lon) = Inr (PDict (current_json w))"
    and "http_get_json net (pollution_url r lat lon) = Inr (PDict (pollution_json w))"
    and "http_get_json net (onecall_url r lat lon) = Inr (PDict (onecall_json w))"
  shows "process_update r net convs k (Ev_Location lat lon) =
           (convs, [Reply (render_report r w) None,
                    Reply (U ''What would you like to do next?'') (Some options_keyboard)])"
proof -
  have wd: "get_weather_by_coordinates r net lat lon = report_json w"
    using assms(3-5) by (rule coordinates_report_json)
  have "lookup_reply r (report_json w) location_apology =
      Inr ([Reply (render_report r w) None,
            Reply (U ''What would you like to do next?'') (Some options_keyboard)],
           Next CHOOSING_OPTION)"
    using lookup_reply_ok [of "report_json w" r "render_report r w" location_apology]
      format_report_json [OF assms(1)]
    by (simp add: report_json_def)
  moreover have "convs(k \<mapsto> CHOOSING_OPTION) = convs" using assms(2) by auto
  ultimately show ?thesis
    using assms(2) wd by (simp add: dispatch_defs handle_location_def)
qed

theorem location_report_end_to_end_witness:
  "valid_report example_report \<and>
   process_update (\<lambda>_. []) example_net (Map.empty((0, 0) \<mapsto> CHOOSING_OPTION)) (0, 0)
     (Ev_Location (PInt 0) (PInt 0)) =
   (Map.empty((0, 0) \<mapsto> CHOOSING_OPTION),
    [Reply (render_report (\<lambda>_. []) example_report) None,
     Reply (U ''What would you like to do next?'') (Some options_keyboard)])"
proof -
  have v: "valid_report example_report"
    by (simp add: valid_report_def example_report_def)
  have w: "http_get_json example_net (weather_url (\<lambda>_. []) (PInt 0) (PInt 0)) =
      Inr (PDict (current_json example_report))"
    by (simp add: http_get_json_def example_net_def)
  have p: "http_get_json example_net (pollution_url (\<lambda>_. []) (PInt 0) (PInt 0)) =
      Inr (PDict (pollution_json example_report))"
    by (simp add: http_get_json_def example_net_def weather_url_def pollution_url_def)
  have o: "http_get_json example_net (onecall_url (\<lambda>_. []) (PInt 0) (PInt 0)) =
      Inr (PDict (onecall_json example_report))"
    by (simp add: http_get_json_def example_net_def weather_url_def pollution_url_def
        onecall_url_def)
  show ?thesis
    using v location_report_end_to_end [OF v _ w p o, of "Map.empty((0, 0) \<mapsto> CHOOSING_OPTION)" "(0, 0)"]
    by simp
qed

text \<open>
  Claim C10. End to end, the failing paths: if the mandatory current-weather request
  fails, or (unlike the specification, which makes them optional) the air-pollution or
  the One Call request fails, a location in CHOOSING_OPTION is answered with the fixed
  apology and the options prompt, and the session stays in CHOOSING_OPTION. The
  witness is the specification's scenario: weather and One Call (UV 9.5) answer,
  pollution fails, and no UV section is shown.
\<close>

theorem failed_call_gives_apology:
  assumes "convs k = Some CHOOSING_OPTION"
    and "(\<exists>e. http_get_json net (weather_url r lat lon) = Inl e) \<or>
         (\<exists>e. http_get_json net (pollution_url r lat lon) = Inl e) \<or>
         (\<exists>e. http_get_json net (onecall_url r lat lon) = Inl e)"
  shows "process_update r net convs k (Ev_Location lat lon) =
           (convs, [Reply location_apology None,
                    Reply (U ''What would you like to do next?'') (Some options_keyboard)])"
proof -
  have "get_weather_by_coordinates r net lat lon = PNone"
    using assms(2) by (rule coordinates_call_failed)
  moreover have "convs(k \<mapsto> CHOOSING_OPTION) = convs" using assms(1) by auto
  ultimately show ?thesis
    using assms(1) lookup_reply_ok [of PNone r "[]" location_apology]
    by (simp add: dispatch_defs handle_location_def)
qed

theorem failed_call_gives_apology_witness:
  "http_get_json example_net_no_pollution (weather_url (\<lambda>_. []) (PInt 0) (PInt 0)) =
     Inr (PDict (current_json example_report)) \<and>
   http_get_json example_net_no_pollution (pollution_url (\<lambda>_. []) (PInt 0) (PInt 0)) =
     Inl HTTPError \<and>
   http_get_json example_net_no_pollution (onecall_url (\<lambda>_. []) (PInt 0) (PInt 0)) =
     Inr (PDict (onecall_json example_report)) \<and>
   uv_index example_report = Some 9.5 \<and>
   process_update (\<lambda>_. []) example_net_no_pollution (Map.empty((0, 0) \<mapsto> CHOOSING_OPTION)) (0, 0)
     (Ev_Location (PInt 0) (PInt 0)) =
   (Map.empty((0, 0) \<mapsto> CHOOSING_OPTION),
    [Reply location_apology None,
     Reply (U ''What would you like to do next?'') (Some options_keyboard)])"
proof -
  have w: "http_get_json example_net_no_pollution (weather_url (\<lambda>_. []) (PInt 0) (PInt 0)) =
      Inr (PDict (current_json example_report))"
    by (simp add: http_get_json_def example_net_no_pollution_def example_net_def weather_url_def
        pollution_url_def)
  have p: "http_get_json example_net_no_pollution (pollution_url (\<lambda>_. []) (PInt 0) (PInt 0)) =
      Inl HTTPError"
    by (simp add: http_get_json_def example_net_no_pollution_def)
  have o: "http_get_json example_net_no_pollution (onecall_url (\<lambda>_. []) (PInt 0) (PInt 0)) =
      Inr (PDict (onecall_json example_report))"
    by (simp add: http_get_json_def example_net_no_pollution_def example_net_def weather_url_def
        pollution_url_def onecall_url_def)
  have "process_update (\<lambda>_. []) example_net_no_pollution (Map.empty((0, 0) \<mapsto> CHOOSING_OPTION)) (0, 0)
     (Ev_Location (PInt 0) (PInt 0)) =
   (Map.empty((0, 0) \<mapsto> CHOOSING_OPTION),
    [Reply location_apology None,
     Reply (U ''What would you like to do next?'') (Some options_keyboard)])"
    using p by (intro failed_call_gives_apology) auto
  then show ?thesis using w p o by (simp add: example_report_def)
qed

text \<open>
  Claim C13. End to end: when the lookup of a typed city name fails (an unresolvable
  name such as Atlantis), the bot answers with an apology that contains the name, then
  the options prompt, and the session returns to CHOOSING_OPTION.
\<close>

theorem unresolvable_city_apology:
  assumes "convs k = Some TYPING_CITY" and "http_get_json net (city_weather_url t) = Inl e"
  shows "process_update r net convs k (Ev_Text t) =
           (convs(k \<mapsto> CHOOSING_OPTION),
            [Reply (city_apology t) None,
             Reply (U ''What would you like to do next?'') (Some options_keyboard)]) \<and>
         (\<exists>a b. city_apology t = a @ t @ b)"
proof -
  have "get_weather_by_city r net t = PNone"
    using assms(2) by (simp add: get_weather_by_city_def fetch_by_city_def)
  then have "process_update r net convs k (Ev_Text t) =
           (convs(k \<mapsto> CHOOSING_OPTION),
            [Reply (city_apology t) None,
             Reply (U ''What would you like to do next?'') (Some options_keyboard)])"
    using assms(1) lookup_reply_ok [of PNone r "[]" "city_apology t"]
    by (simp add: dispatch_defs handle_city_def)
  moreover have "\<exists>a b. city_apology t = a @ t @ b"
    unfolding city_apology_def
    by (rule exI [of _ "U ''Sorry, I couldn't find weather information for '' @ [39]"],
        rule exI [of _ "[39] @ U ''.''"]) simp
  ultimately show ?thesis by blast
qed

theorem unresolvable_city_apology_witness:
  "process_update (\<lambda>_. []) (\<lambda>_. Unreachable) (Map.empty((0, 0) \<mapsto> TYPING_CITY)) (0, 0)
     (Ev_Text (U ''Atlantis'')) =
   (Map.empty((0, 0) \<mapsto> CHOOSING_OPTION),
    [Reply (city_apology (U ''Atlantis'')) None,
     Reply (U ''What would you like to do next?'') (Some options_keyboard)]) \<and>
   (\<exists>a b. city_apology (U ''Atlantis'') = a @ U ''Atlantis'' @ b)"
  using unresolvable_city_apology [of "Map.empty((0, 0) \<mapsto> TYPING_CITY)" "(0, 0)" "\<lambda>_. Unreachable"
      "U ''Atlantis''" ConnectionError "\<lambda>_. []"]
  by (simp add: http_get_json_def)


end
